theory Spec2Isabelle
  imports Complex_Main
begin

section \<open>Floating-point values\<close>

text \<open>
  The program computes on pandas columns of IEEE-754 doubles. A value is modelled as a
  real number or one of the three special values the program's logic depends on: NaN
  (pandas' marker of a missing value) and the two infinities (the result of dividing a
  non-zero number by zero). Arithmetic on finite values is exact: rounding, overflow of
  finite values and the sign of zero are not modelled, and a zero divisor counts as +0
  (the only zero divisor of the program is a rolling standard deviation, which is never
  negative). Where a theorem concludes that a value is finite, it bounds the prices so
  that every exact result stays inside the range of a double (\<open>in_range\<close> below).
\<close>

datatype fl = Fin real | PInf | NInf | NaN

fun fneg :: "fl \<Rightarrow> fl" where
  "fneg (Fin a) = Fin (- a)"
| "fneg PInf = NInf"
| "fneg NInf = PInf"
| "fneg NaN = NaN"

fun fadd :: "fl \<Rightarrow> fl \<Rightarrow> fl" where
  "fadd (Fin a) (Fin b) = Fin (a + b)"
| "fadd (Fin a) PInf = PInf"
| "fadd (Fin a) NInf = NInf"
| "fadd (Fin a) NaN = NaN"
| "fadd PInf (Fin b) = PInf"
| "fadd PInf PInf = PInf"
| "fadd PInf NInf = NaN"
| "fadd PInf NaN = NaN"
| "fadd NInf (Fin b) = NInf"
| "fadd NInf PInf = NaN"
| "fadd NInf NInf = NInf"
| "fadd NInf NaN = NaN"
| "fadd NaN b = NaN"

definition fsub :: "fl \<Rightarrow> fl \<Rightarrow> fl" where
  "fsub a b = fadd a (fneg b)"

text \<open>The sign of an infinity multiplied or divided by a finite value; \<open>0 * inf\<close> is NaN.\<close>

definition signed_inf :: "real \<Rightarrow> fl" where
  "signed_inf s = (if 0 < s then PInf else if s < 0 then NInf else NaN)"

fun fmul :: "fl \<Rightarrow> fl \<Rightarrow> fl" where
  "fmul (Fin a) (Fin b) = Fin (a * b)"
| "fmul (Fin a) PInf = signed_inf a"
| "fmul (Fin a) NInf = signed_inf (- a)"
| "fmul (Fin a) NaN = NaN"
| "fmul PInf (Fin b) = signed_inf b"
| "fmul PInf PInf = PInf"
| "fmul PInf NInf = NInf"
| "fmul PInf NaN = NaN"
| "fmul NInf (Fin b) = signed_inf (- b)"
| "fmul NInf PInf = NInf"
| "fmul NInf NInf = PInf"
| "fmul NInf NaN = NaN"
| "fmul NaN b = NaN"

fun fdiv :: "fl \<Rightarrow> fl \<Rightarrow> fl" where
  "fdiv (Fin a) (Fin b) = (if b = 0 then signed_inf a else Fin (a / b))"
| "fdiv (Fin a) PInf = Fin 0"
| "fdiv (Fin a) NInf = Fin 0"
| "fdiv (Fin a) NaN = NaN"
| "fdiv PInf (Fin b) = (if 0 \<le> b then PInf else NInf)"
| "fdiv PInf b = NaN"
| "fdiv NInf (Fin b) = (if 0 \<le> b then NInf else PInf)"
| "fdiv NInf b = NaN"
| "fdiv NaN b = NaN"

text \<open>Comparisons: every comparison with NaN is false.\<close>

fun flt :: "fl \<Rightarrow> fl \<Rightarrow> bool" where
  "flt (Fin a) (Fin b) = (a < b)"
| "flt (Fin a) PInf = True"
| "flt NInf (Fin b) = True"
| "flt NInf PInf = True"
| "flt a b = False"

fun fle :: "fl \<Rightarrow> fl \<Rightarrow> bool" where
  "fle (Fin a) (Fin b) = (a \<le> b)"
| "fle (Fin a) PInf = True"
| "fle NInf (Fin b) = True"
| "fle NInf PInf = True"
| "fle PInf PInf = True"
| "fle NInf NInf = True"
| "fle a b = False"

definition fgt :: "fl \<Rightarrow> fl \<Rightarrow> bool" where
  "fgt a b = flt b a"

text \<open>IEEE equality \<open>==\<close>: NaN is not equal to itself.\<close>

definition feq :: "fl \<Rightarrow> fl \<Rightarrow> bool" where
  "feq a b = (a \<noteq> NaN \<and> a = b)"

fun is_fin :: "fl \<Rightarrow> bool" where
  "is_fin (Fin a) = True"
| "is_fin a = False"

fun not_infinite :: "fl \<Rightarrow> bool" where
  "not_infinite PInf = False"
| "not_infinite NInf = False"
| "not_infinite a = True"

text \<open>
  The largest finite double, \<open>(2 - 2^-52) * 2^1023\<close>: a finite result of a larger
  magnitude is an infinity in the program.
\<close>

definition max_double :: real where
  "max_double = (2 - 1 / 2 ^ 52) * 2 ^ 1023"

text \<open>A value that is missing, or finite with a magnitude of at most \<open>B\<close>.\<close>

fun bounded_by :: "real \<Rightarrow> fl \<Rightarrow> bool" where
  "bounded_by B (Fin r) = (abs r \<le> B)"
| "bounded_by B NaN = True"
| "bounded_by B PInf = False"
| "bounded_by B NInf = False"

text \<open>
  A finite value of at most a quarter of the largest double: the sum of three such values,
  and the rounding of the program's additions, stay below the overflow threshold.
\<close>

definition in_range :: "fl \<Rightarrow> bool" where
  "in_range x = (is_fin x \<and> bounded_by (max_double / 4) x)"

section \<open>The pandas and numpy operations the program calls\<close>

datatype py_error = ValueError | OverflowError | IndexError

text \<open>Python's \<open>int(x)\<close> on a float: truncation towards zero; NaN and the infinities raise.\<close>

fun py_int :: "fl \<Rightarrow> py_error + int" where
  "py_int (Fin r) = Inr (if 0 \<le> r then \<lfloor>r\<rfloor> else \<lceil>r\<rceil>)"
| "py_int NaN = Inl ValueError"
| "py_int PInf = Inl OverflowError"
| "py_int NInf = Inl OverflowError"

text \<open>\<open>Series.fillna(v)\<close>: every NaN is replaced by \<open>v\<close>.\<close>

definition fillna :: "fl \<Rightarrow> fl list \<Rightarrow> fl list" where
  "fillna v xs = map (\<lambda>x. if x = NaN then v else x) xs"

text \<open>\<open>Series.diff()\<close>: the difference to the previous row; the first row has none and is NaN.\<close>

fun diff :: "fl list \<Rightarrow> fl list" where
  "diff [] = []"
| "diff (x # xs) = NaN # map2 (\<lambda>prev cur. fsub cur prev) (x # xs) xs"

text \<open>
  \<open>Series.shift(k)\<close>: the values move \<open>k\<close> rows down (up for a negative \<open>k\<close>); the rows
  left without a value are NaN and the length is kept.
\<close>

definition shift :: "int \<Rightarrow> fl list \<Rightarrow> fl list" where
  "shift k xs =
     (let n = length xs in
      if 0 \<le> k then replicate (min (nat k) n) NaN @ take (n - nat k) xs
      else drop (nat (- k)) xs @ replicate (min (nat (- k)) n) NaN)"

text \<open>
  \<open>Series.cumsum()\<close> with pandas' default \<open>skipna=True\<close>: the running sum skips a NaN
  row, and the result is NaN at that row.
\<close>

fun cumsum_from :: "fl \<Rightarrow> fl list \<Rightarrow> fl list" where
  "cumsum_from acc [] = []"
| "cumsum_from acc (x # xs) =
     (if x = NaN then NaN # cumsum_from acc xs
      else fadd acc x # cumsum_from (fadd acc x) xs)"

definition cumsum :: "fl list \<Rightarrow> fl list" where
  "cumsum xs = cumsum_from (Fin 0) xs"

text \<open>
  \<open>Series.rolling(window=w, min_periods=m)\<close>: the window of row \<open>t\<close> is the rows
  \<open>t - w + 1 .. t\<close> that exist. Its observations are the finite values in it: pandas
  counts NaN as missing and replaces an infinity by NaN before it aggregates.
\<close>

definition window_at :: "nat \<Rightarrow> fl list \<Rightarrow> nat \<Rightarrow> fl list" where
  "window_at w xs t = drop (Suc t - w) (take (Suc t) xs)"

fun observations :: "fl list \<Rightarrow> real list" where
  "observations [] = []"
| "observations (Fin r # xs) = r # observations xs"
| "observations (x # xs) = observations xs"

text \<open>\<open>.mean()\<close>: NaN unless the window holds at least \<open>min_periods\<close> (and one) observations.\<close>

definition mean_of :: "nat \<Rightarrow> real list \<Rightarrow> fl" where
  "mean_of minp obs =
     (if minp \<le> length obs \<and> 0 < length obs
      then Fin (sum_list obs / real (length obs)) else NaN)"

definition rolling_mean :: "nat \<Rightarrow> nat \<Rightarrow> fl list \<Rightarrow> fl list" where
  "rolling_mean w minp xs =
     map (\<lambda>t. mean_of minp (observations (window_at w xs t))) [0..<length xs]"

text \<open>
  \<open>.std()\<close>: the sample standard deviation (\<open>ddof=1\<close>): NaN unless the window holds at
  least \<open>min_periods\<close> and more than one observation.
\<close>

definition std_of :: "nat \<Rightarrow> real list \<Rightarrow> fl" where
  "std_of minp obs =
     (if minp \<le> length obs \<and> 1 < length obs
      then (let m = sum_list obs / real (length obs)
            in Fin (sqrt (sum_list (map (\<lambda>x. (x - m)\<^sup>2) obs) / real (length obs - 1))))
      else NaN)"

definition rolling_std :: "nat \<Rightarrow> nat \<Rightarrow> fl list \<Rightarrow> fl list" where
  "rolling_std w minp xs =
     map (\<lambda>t. std_of minp (observations (window_at w xs t))) [0..<length xs]"

section \<open>The data frames\<close>

text \<open>
  \<open>data\<close> is the frame of price bars; the program reads its column \<open>Close\<close> only. A
  frame of signals has the columns of the three strategies: the price, the strategy's
  indicator columns under their names, the signal and the change of the signal
  (\<open>positions\<close>). The rows of a frame are numbered from 0; two frames are aligned when
  they have the same rows.
\<close>

record price_data =
  Close :: "fl list"

record signal_frame =
  price :: "fl list"
  indicators :: "(string \<times> fl list) list"
  signal :: "fl list"
  positions :: "fl list"

record portfolio =
  holdings :: "fl list"
  cash :: "fl list"
  total :: "fl list"

section \<open>The strategies\<close>

text \<open>
  \<open>moving_average_strategy\<close>: both rolling means have \<open>min_periods=1\<close>, so pandas
  refuses a window below 1 with a ValueError. The signal column starts at 0.0, is set to
  1.0 where the short mean is above the long one, and to 0.0 where it is not above.
\<close>

definition moving_average_strategy ::
  "price_data \<Rightarrow> int \<Rightarrow> int \<Rightarrow> py_error + signal_frame" where
  "moving_average_strategy data short_window long_window =
     (if short_window < 1 then Inl ValueError
      else if long_window < 1 then Inl ValueError
      else
        (let short_mavg = rolling_mean (nat short_window) 1 (Close data);
             long_mavg = rolling_mean (nat long_window) 1 (Close data);
             signal0 = replicate (length (Close data)) (Fin 0);
             signal1 = map (\<lambda>(s, (a, b)). if fgt a b then Fin 1 else s)
                         (zip signal0 (zip short_mavg long_mavg));
             signal2 = map (\<lambda>(s, (a, b)). if fle a b then Fin 0 else s)
                         (zip signal1 (zip short_mavg long_mavg))
         in Inr \<lparr>price = Close data,
                 indicators = [(''short_mavg'', short_mavg), (''long_mavg'', long_mavg)],
                 signal = signal2,
                 positions = fillna (Fin 0) (diff signal2)\<rparr>))"

text \<open>\<open>momentum_strategy\<close>: \<open>shift\<close> takes every integer, so nothing raises.\<close>

definition momentum_strategy :: "price_data \<Rightarrow> int \<Rightarrow> signal_frame" where
  "momentum_strategy data window =
     (let momentum = map2 fsub (Close data) (shift window (Close data));
          sig = map (\<lambda>m. if fgt m (Fin 0) then Fin 1 else Fin 0) momentum
      in \<lparr>price = Close data,
          indicators = [(''momentum'', momentum)],
          signal = sig,
          positions = fillna (Fin 0) (diff sig)\<rparr>)"

text \<open>
  \<open>mean_reversion_strategy\<close>: \<open>min_periods\<close> is not given and defaults to the window;
  pandas refuses a negative window with a ValueError.
\<close>

definition mean_reversion_strategy :: "price_data \<Rightarrow> int \<Rightarrow> py_error + signal_frame" where
  "mean_reversion_strategy data window =
     (if window < 0 then Inl ValueError
      else
        (let mean = rolling_mean (nat window) (nat window) (Close data);
             std = rolling_std (nat window) (nat window) (Close data);
             z_score = map2 fdiv (map2 fsub (Close data) mean) std;
             sig = map (\<lambda>z. if flt z (Fin (- 1)) then Fin 1
                             else if fgt z (Fin 1) then Fin (- 1) else Fin 0) z_score
         in Inr \<lparr>price = Close data,
                 indicators = [(''mean'', mean), (''std'', std), (''z_score'', z_score)],
                 signal = sig,
                 positions = fillna (Fin 0) (diff sig)\<rparr>))"

section \<open>The backtest\<close>

text \<open>
  The portfolio has the rows of \<open>signals\<close>. pandas aligns \<open>data['Close']\<close> to them by
  row label: a row of \<open>signals\<close> that \<open>data\<close> lacks has a NaN price.
\<close>

definition reindex :: "nat \<Rightarrow> fl list \<Rightarrow> fl list" where
  "reindex n xs = take n xs @ replicate (n - length xs) NaN"

definition backtest_strategy :: "price_data \<Rightarrow> signal_frame \<Rightarrow> portfolio" where
  "backtest_strategy data signals =
     (let initial_capital = Fin 10000;
          crypto = map (\<lambda>s. fmul s (Fin 1000)) (signal signals);
          close = reindex (length (signal signals)) (Close data);
          holdings' = fillna (Fin 0) (map2 fmul crypto close);
          cash' = map (fsub initial_capital)
                    (fillna (Fin 0) (cumsum (map2 fmul (fillna (Fin 0) (diff crypto)) close)));
          total' = map2 fadd cash' holdings'
      in \<lparr>holdings = holdings', cash = cash', total = total'\<rparr>)"

text \<open>A portfolio whose three columns hold finite values in the range of a double only.\<close>

definition portfolio_in_range :: "portfolio \<Rightarrow> bool" where
  "portfolio_in_range p =
     (list_all in_range (holdings p) \<and> list_all in_range (cash p) \<and> list_all in_range (total p))"

section \<open>The optimizer's objective\<close>

text \<open>\<open>s.iloc[-1]\<close>: the last row; an IndexError on an empty column.\<close>

definition iloc_last :: "fl list \<Rightarrow> py_error + fl" where
  "iloc_last xs = (if xs = [] then Inl IndexError else Inr (last xs))"

text \<open>Sequencing of calls that may raise: the first exception ends the evaluation.\<close>

definition and_then :: "py_error + 'a \<Rightarrow> ('a \<Rightarrow> py_error + 'b) \<Rightarrow> py_error + 'b" where
  "and_then r f = (case r of Inl e \<Rightarrow> Inl e | Inr v \<Rightarrow> f v)"

type_synonym params = "fl \<times> fl \<times> fl \<times> fl"

definition objective :: "price_data \<Rightarrow> params \<Rightarrow> py_error + fl" where
  "objective data ps =
     (case ps of (short_window, long_window, momentum_window, mean_window) \<Rightarrow>
        and_then (py_int short_window) (\<lambda>sw.
        and_then (py_int long_window) (\<lambda>lw.
        and_then (moving_average_strategy data sw lw) (\<lambda>signals_ma.
        and_then (py_int momentum_window) (\<lambda>mw.
        (let signals_mo = momentum_strategy data mw in
        and_then (py_int mean_window) (\<lambda>rw.
        and_then (mean_reversion_strategy data rw) (\<lambda>signals_mr.
        (let portfolio_ma = backtest_strategy data signals_ma;
             portfolio_mo = backtest_strategy data signals_mo;
             portfolio_mr = backtest_strategy data signals_mr;
             combined_portfolio =
               map (\<lambda>x. fdiv x (Fin 3))
                 (map2 fadd (map2 fadd (total portfolio_ma) (total portfolio_mo))
                    (total portfolio_mr))
         in and_then (iloc_last combined_portfolio) (\<lambda>v. Inr (fneg v)))))))))))"

section \<open>The accounting formula of the specification\<close>

text \<open>
  The specification's closed form of the cash column, on finite prices and signals:
  \<open>cash[t] = initial_capital - \<Sum>k\<le>t. (position[k] - position[k-1]) * price[k]\<close>
  with \<open>position[k] = signal[k] * 1000\<close> and \<open>position[-1] = 0\<close>.
\<close>

definition spec_position :: "real list \<Rightarrow> int \<Rightarrow> real" where
  "spec_position sig k = (if k < 0 then 0 else sig ! nat k * 1000)"

definition spec_cash :: "real list \<Rightarrow> real list \<Rightarrow> nat \<Rightarrow> real" where
  "spec_cash prices sig t =
     10000 - (\<Sum>k\<le>t. (spec_position sig (int k) - spec_position sig (int k - 1)) * prices ! k)"

section \<open>Lengths of the columns\<close>

lemma length_fillna: "length (fillna v xs) = length xs"
  by (simp add: fillna_def)

lemma nth_fillna: "t < length xs \<Longrightarrow> fillna v xs ! t = (if xs ! t = NaN then v else xs ! t)"
  by (simp add: fillna_def)

lemma length_diff: "length (diff xs) = length xs"
  by (cases xs) simp_all

lemma length_shift: "length (shift k xs) = length xs"
  by (auto simp: shift_def Let_def)

lemma length_cumsum_from: "length (cumsum_from a xs) = length xs"
  by (induction xs arbitrary: a) simp_all

lemma length_cumsum: "length (cumsum xs) = length xs"
  by (simp add: cumsum_def length_cumsum_from)

lemma length_rolling_mean: "length (rolling_mean w m xs) = length xs"
  by (simp add: rolling_mean_def)

lemma length_rolling_std: "length (rolling_std w m xs) = length xs"
  by (simp add: rolling_std_def)

lemma length_reindex: "length (reindex n xs) = n"
  by (simp add: reindex_def)

lemma reindex_same: "reindex (length xs) xs = xs"
  by (simp add: reindex_def)

lemma length_backtest:
  "length (holdings (backtest_strategy d s)) = length (signal s)"
  "length (cash (backtest_strategy d s)) = length (signal s)"
  "length (total (backtest_strategy d s)) = length (signal s)"
  by (simp_all add: backtest_strategy_def Let_def length_fillna length_cumsum length_diff
      length_reindex)

lemma fillna_diff_head: "xs \<noteq> [] \<Longrightarrow> fillna (Fin 0) (diff xs) ! 0 = Fin 0"
  by (cases xs) (simp_all add: fillna_def)

lemma flt_irrefl: "\<not> flt a a"
  by (cases a) simp_all

lemma fmul_zero_left: "fmul (Fin 0) c = Fin 0 \<or> fmul (Fin 0) c = NaN"
  by (cases c) (simp_all add: signed_inf_def)

lemma backtest_total_0:
  assumes "signal s \<noteq> []" and "signal s ! 0 = Fin 0"
  shows "total (backtest_strategy d s) ! 0 = Fin 10000"
proof -
  from assms obtain ss where sg: "signal s = Fin 0 # ss"
    by (cases "signal s") auto
  obtain c cs where cl: "reindex (Suc (length ss)) (Close d) = c # cs"
    using length_reindex [of "Suc (length ss)" "Close d"]
    by (cases "reindex (Suc (length ss)) (Close d)") auto
  have "fmul (Fin 0) c = Fin 0 \<or> fmul (Fin 0) c = NaN"
    by (rule fmul_zero_left)
  then show ?thesis
    by (auto simp: backtest_strategy_def Let_def sg cl fillna_def cumsum_def fsub_def)
qed

section \<open>The frames of the strategies\<close>

lemma ma_signal_range:
  assumes "moving_average_strategy d sw lw = Inr s"
  shows "set (signal s) \<subseteq> {Fin 0, Fin 1}"
proof -
  from assms have "signal s =
      map (\<lambda>(s, (a, b)). if fle a b then Fin 0 else s)
        (zip (map (\<lambda>(s, (a, b)). if fgt a b then Fin 1 else s)
               (zip (replicate (length (Close d)) (Fin 0))
                 (zip (rolling_mean (nat sw) 1 (Close d)) (rolling_mean (nat lw) 1 (Close d)))))
          (zip (rolling_mean (nat sw) 1 (Close d)) (rolling_mean (nat lw) 1 (Close d))))"
    by (auto simp: moving_average_strategy_def Let_def split: if_splits)
  then show ?thesis
    by (auto split: if_splits dest!: set_zip_leftD)
qed

lemma ma_length:
  assumes "moving_average_strategy d sw lw = Inr s"
  shows "length (signal s) = length (Close d)" and "length (positions s) = length (Close d)"
  using assms
  by (auto simp: moving_average_strategy_def Let_def length_rolling_mean length_fillna length_diff
      split: if_splits)

lemma ma_returns: "1 \<le> sw \<Longrightarrow> 1 \<le> lw \<Longrightarrow> \<exists>s. moving_average_strategy d sw lw = Inr s"
  by (simp add: moving_average_strategy_def Let_def)

lemma ma_raises: "moving_average_strategy d sw lw = Inl e \<Longrightarrow> e = ValueError \<and> (sw < 1 \<or> lw < 1)"
  by (auto simp: moving_average_strategy_def Let_def split: if_splits)

lemma momentum_signal_range: "set (signal (momentum_strategy d w)) \<subseteq> {Fin 0, Fin 1}"
  by (auto simp: momentum_strategy_def Let_def)

lemma momentum_length:
  "length (signal (momentum_strategy d w)) = length (Close d)"
  "length (positions (momentum_strategy d w)) = length (Close d)"
  by (simp_all add: momentum_strategy_def Let_def length_shift length_fillna length_diff)

lemma mr_signal_range:
  assumes "mean_reversion_strategy d w = Inr s"
  shows "set (signal s) \<subseteq> {Fin (- 1), Fin 0, Fin 1}"
  using assms by (auto simp: mean_reversion_strategy_def Let_def split: if_splits)

lemma mr_length:
  assumes "mean_reversion_strategy d w = Inr s"
  shows "length (signal s) = length (Close d)" and "length (positions s) = length (Close d)"
  using assms
  by (auto simp: mean_reversion_strategy_def Let_def length_rolling_mean length_rolling_std
      length_fillna length_diff split: if_splits)

lemma mr_returns: "0 \<le> w \<Longrightarrow> \<exists>s. mean_reversion_strategy d w = Inr s"
  by (simp add: mean_reversion_strategy_def Let_def)

lemma mr_raises: "mean_reversion_strategy d w = Inl e \<Longrightarrow> e = ValueError \<and> w < 0"
  by (auto simp: mean_reversion_strategy_def Let_def split: if_splits)

section \<open>Finite columns of the backtest\<close>

lemma is_fin_iff: "is_fin x \<longleftrightarrow> (\<exists>r. x = Fin r)"
  by (cases x) simp_all

lemma not_inf_iff: "not_infinite x \<longleftrightarrow> is_fin x \<or> x = NaN"
  by (cases x) simp_all

lemma fmul_no_inf: "not_infinite a \<Longrightarrow> not_infinite b \<Longrightarrow> not_infinite (fmul a b)"
  by (cases a; cases b) simp_all

lemma fsub_no_inf: "not_infinite a \<Longrightarrow> not_infinite b \<Longrightarrow> not_infinite (fsub a b)"
  by (cases a; cases b) (simp_all add: fsub_def)

lemma fadd_fin: "is_fin a \<Longrightarrow> is_fin b \<Longrightarrow> is_fin (fadd a b)"
  by (cases a; cases b) simp_all

lemma fsub_fin: "is_fin a \<Longrightarrow> is_fin b \<Longrightarrow> is_fin (fsub a b)"
  by (cases a; cases b) (simp_all add: fsub_def)

lemma map2_pred:
  assumes "\<forall>x\<in>set xs. P x" and "\<forall>y\<in>set ys. Q y"
    and "\<And>x y. P x \<Longrightarrow> Q y \<Longrightarrow> R (f x y)"
  shows "\<forall>z\<in>set (map2 f xs ys). R z"
proof
  fix z assume "z \<in> set (map2 f xs ys)"
  then obtain x y where "(x, y) \<in> set (zip xs ys)" and z: "z = f x y"
    by auto
  then have "x \<in> set xs" and "y \<in> set ys"
    by (auto dest: set_zip_leftD set_zip_rightD)
  with assms show "R z" unfolding z by blast
qed

lemma fillna_fin: "\<forall>x\<in>set xs. not_infinite x \<Longrightarrow> \<forall>x\<in>set (fillna (Fin v) xs). is_fin x"
  by (auto simp: fillna_def not_inf_iff)

lemma diff_no_inf: "\<forall>x\<in>set xs. not_infinite x \<Longrightarrow> \<forall>x\<in>set (diff xs). not_infinite x"
proof (cases xs)
  case Nil
  then show ?thesis by simp
next
  case (Cons y ys)
  assume a: "\<forall>x\<in>set xs. not_infinite x"
  have "\<forall>z\<in>set (map2 (\<lambda>prev cur. fsub cur prev) (y # ys) ys). not_infinite z"
    by (rule map2_pred [where P = "\<lambda>x. not_infinite x" and Q = "\<lambda>x. not_infinite x"])
      (use a Cons in \<open>auto intro: fsub_no_inf\<close>)
  then show ?thesis using Cons by simp
qed

lemma cumsum_from_no_inf:
  "is_fin a \<Longrightarrow> \<forall>x\<in>set xs. not_infinite x \<Longrightarrow> \<forall>x\<in>set (cumsum_from a xs). not_infinite x"
proof (induction xs arbitrary: a)
  case Nil
  then show ?case by simp
next
  case (Cons y ys)
  show ?case
  proof (cases "y = NaN")
    case True
    then show ?thesis using Cons by simp
  next
    case False
    with Cons.prems have "is_fin y" by (simp add: not_inf_iff)
    with Cons.prems have f: "is_fin (fadd a y)" by (simp add: fadd_fin)
    with Cons.IH [OF f] Cons.prems False show ?thesis
      by (simp add: not_inf_iff)
  qed
qed

lemma reindex_no_inf: "\<forall>x\<in>set xs. not_infinite x \<Longrightarrow> \<forall>x\<in>set (reindex n xs). not_infinite x"
  by (auto simp: reindex_def dest: in_set_takeD)

lemma backtest_columns_fin:
  assumes sg: "\<forall>x\<in>set (signal s). not_infinite x" and cl: "\<forall>x\<in>set (Close d). not_infinite x"
  shows "\<forall>x\<in>set (holdings (backtest_strategy d s)). is_fin x"
    and "\<forall>x\<in>set (cash (backtest_strategy d s)). is_fin x"
    and "\<forall>x\<in>set (total (backtest_strategy d s)). is_fin x"
proof -
  define crypto where "crypto = map (\<lambda>s. fmul s (Fin 1000)) (signal s)"
  define close where "close = reindex (length (signal s)) (Close d)"
  define hs where "hs = fillna (Fin 0) (map2 fmul crypto close)"
  define cs where "cs = map (fsub (Fin 10000))
     (fillna (Fin 0) (cumsum (map2 fmul (fillna (Fin 0) (diff crypto)) close)))"
  have bt: "backtest_strategy d s = \<lparr>holdings = hs, cash = cs, total = map2 fadd cs hs\<rparr>"
    by (simp add: backtest_strategy_def Let_def crypto_def close_def hs_def cs_def)
  have c1: "\<forall>x\<in>set crypto. not_infinite x"
    using sg by (auto simp: crypto_def intro: fmul_no_inf)
  have c2: "\<forall>x\<in>set close. not_infinite x"
    unfolding close_def by (rule reindex_no_inf [OF cl])
  have "\<forall>x\<in>set (map2 fmul crypto close). not_infinite x"
    by (rule map2_pred [OF c1 c2]) (rule fmul_no_inf)
  then have h: "\<forall>x\<in>set hs. is_fin x"
    unfolding hs_def by (rule fillna_fin)
  have "\<forall>x\<in>set (fillna (Fin 0) (diff crypto)). is_fin x"
    by (rule fillna_fin [OF diff_no_inf [OF c1]])
  then have "\<forall>x\<in>set (fillna (Fin 0) (diff crypto)). not_infinite x"
    by (simp add: not_inf_iff)
  then have "\<forall>x\<in>set (map2 fmul (fillna (Fin 0) (diff crypto)) close). not_infinite x"
    by (rule map2_pred [OF _ c2]) (rule fmul_no_inf)
  then have "\<forall>x\<in>set (cumsum (map2 fmul (fillna (Fin 0) (diff crypto)) close)). not_infinite x"
    unfolding cumsum_def by (intro cumsum_from_no_inf) simp_all
  then have "\<forall>x\<in>set (fillna (Fin 0) (cumsum (map2 fmul (fillna (Fin 0) (diff crypto)) close))).
      is_fin x"
    by (rule fillna_fin)
  then have c: "\<forall>x\<in>set cs. is_fin x"
    by (auto simp: cs_def intro: fsub_fin)
  have t: "\<forall>x\<in>set (map2 fadd cs hs). is_fin x"
    by (rule map2_pred [OF c h]) (rule fadd_fin)
  show "\<forall>x\<in>set (holdings (backtest_strategy d s)). is_fin x"
    and "\<forall>x\<in>set (cash (backtest_strategy d s)). is_fin x"
    and "\<forall>x\<in>set (total (backtest_strategy d s)). is_fin x"
    using h c t by (simp_all add: bt)
qed


section \<open>The running sum on finite columns\<close>

lemma nth_diff:
  "k < length xs \<Longrightarrow> diff xs ! k = (if k = 0 then NaN else fsub (xs ! k) (xs ! (k - 1)))"
  by (cases xs; cases k) simp_all

lemma nth_cumsum_from_Fin:
  "t < length rs \<Longrightarrow> cumsum_from (Fin a) (map Fin rs) ! t = Fin (a + (\<Sum>k\<le>t. rs ! k))"
proof (induction rs arbitrary: a t)
  case Nil
  then show ?case by simp
next
  case (Cons r rs)
  show ?case
  proof (cases t)
    case 0
    then show ?thesis by simp
  next
    case (Suc u)
    with Cons.prems have "u < length rs" by simp
    from Cons.IH [OF this, of "a + r"] Suc show ?thesis
      by (simp add: sum.atMost_Suc_shift del: sum.atMost_Suc)
  qed
qed

lemma sum_from_one:
  fixes f :: "nat \<Rightarrow> real"
  shows "(\<Sum>k\<le>t. f k) = f 0 + (\<Sum>k\<in>{1..t}. f k)"
  by (simp add: atMost_atLeast0 sum.atLeast_Suc_atMost)

lemma cash_finite_inputs:
  assumes len: "length sig = length prices" and t: "t < length prices"
    and sg: "signal s = map Fin sig"
  shows "cash (backtest_strategy \<lparr>Close = map Fin prices\<rparr> s) ! t =
    Fin (10000 - (\<Sum>k\<in>{1..t}. (sig ! k * 1000 - sig ! (k - 1) * 1000) * prices ! k))"
proof -
  define n where "n = length prices"
  define cr where "cr = map (\<lambda>x. x * 1000) sig"
  define rs where "rs = map (\<lambda>k. (if k = 0 then 0 else cr ! k - cr ! (k - 1)) * prices ! k)
     [0..<n]"
  have lcr: "length cr = n"
    by (simp add: cr_def n_def len)
  have crypto: "map (\<lambda>s. fmul s (Fin 1000)) (signal s) = map Fin cr"
    by (simp add: sg cr_def)
  have close: "reindex (length (signal s)) (Close \<lparr>Close = map Fin prices\<rparr>) = map Fin prices"
    by (simp add: sg len reindex_def)
  have prod: "map2 fmul (fillna (Fin 0) (diff (map Fin cr))) (map Fin prices) = map Fin rs"
  proof (rule nth_equalityI)
    show "length (map2 fmul (fillna (Fin 0) (diff (map Fin cr))) (map Fin prices))
        = length (map Fin rs)"
      by (simp add: rs_def n_def lcr length_fillna length_diff)
  next
    fix k
    assume "k < length (map2 fmul (fillna (Fin 0) (diff (map Fin cr))) (map Fin prices))"
    then have k: "k < n"
      by (simp add: n_def)
    then have k': "k < length (map Fin cr)"
      by (simp add: lcr)
    have d: "fillna (Fin 0) (diff (map Fin cr)) ! k =
        Fin (if k = 0 then 0 else cr ! k - cr ! (k - 1))"
      using k k' lcr by (simp add: nth_fillna length_diff nth_diff [OF k'] fsub_def)
    have "map2 fmul (fillna (Fin 0) (diff (map Fin cr))) (map Fin prices) ! k =
        fmul (fillna (Fin 0) (diff (map Fin cr)) ! k) (map Fin prices ! k)"
      using k lcr by (simp add: n_def length_fillna length_diff)
    also have "\<dots> = Fin ((if k = 0 then 0 else cr ! k - cr ! (k - 1)) * prices ! k)"
      using k unfolding d by (simp add: n_def)
    also have "\<dots> = map Fin rs ! k"
      using k by (simp add: rs_def)
    finally show "map2 fmul (fillna (Fin 0) (diff (map Fin cr))) (map Fin prices) ! k
        = map Fin rs ! k" .
  qed
  have "cash (backtest_strategy \<lparr>Close = map Fin prices\<rparr> s) =
      map (fsub (Fin 10000)) (fillna (Fin 0) (cumsum_from (Fin 0) (map Fin rs)))"
    unfolding backtest_strategy_def Let_def crypto close prod cumsum_def by simp
  moreover have "t < length rs"
    using t by (simp add: rs_def n_def)
  ultimately have "cash (backtest_strategy \<lparr>Close = map Fin prices\<rparr> s) ! t =
      Fin (10000 - (\<Sum>k\<le>t. rs ! k))"
    by (simp add: length_fillna length_cumsum_from nth_fillna nth_cumsum_from_Fin fsub_def)
  moreover have "(\<Sum>k\<le>t. rs ! k) = rs ! 0 + (\<Sum>k\<in>{1..t}. rs ! k)"
    by (rule sum_from_one)
  moreover have "rs ! 0 = 0"
  proof -
    have "0 < n" using t by (cases prices) (simp_all add: n_def)
    then show ?thesis by (simp add: rs_def)
  qed
  moreover have "(\<Sum>k\<in>{1..t}. rs ! k) =
      (\<Sum>k\<in>{1..t}. (sig ! k * 1000 - sig ! (k - 1) * 1000) * prices ! k)"
    using t len by (intro sum.cong) (auto simp: rs_def n_def cr_def)
  ultimately show ?thesis
    by simp
qed

lemma spec_cash_split:
  "spec_cash prices sig t = 10000 - sig ! 0 * 1000 * prices ! 0
     - (\<Sum>k\<in>{1..t}. (sig ! k * 1000 - sig ! (k - 1) * 1000) * prices ! k)"
proof -
  have "(\<Sum>k\<in>{1..t}. (spec_position sig (int k) - spec_position sig (int k - 1)) * prices ! k) =
      (\<Sum>k\<in>{1..t}. (sig ! k * 1000 - sig ! (k - 1) * 1000) * prices ! k)"
    by (intro sum.cong) (auto simp: spec_position_def nat_diff_distrib')
  then show ?thesis
    unfolding spec_cash_def
    by (simp add: sum_from_one [of _ t] spec_position_def)
qed

section \<open>The first bar\<close>

lemma nth_rolling_mean:
  "t < length xs \<Longrightarrow> rolling_mean w m xs ! t = mean_of m (observations (window_at w xs t))"
  by (simp add: rolling_mean_def)

lemma nth_rolling_std:
  "t < length xs \<Longrightarrow> rolling_std w m xs ! t = std_of m (observations (window_at w xs t))"
  by (simp add: rolling_std_def)

lemma nth_shift_down:
  "0 \<le> k \<Longrightarrow> t < length xs \<Longrightarrow>
    shift k xs ! t = (if t < nat k then NaN else xs ! (t - nat k))"
  by (auto simp: shift_def Let_def nth_append min_def)

lemma window_at_head: "1 \<le> w \<Longrightarrow> window_at w xs 0 = take 1 xs"
  by (simp add: window_at_def)

lemma length_observations: "length (observations xs) \<le> length xs"
  by (induction xs rule: observations.induct) simp_all

lemma fdiv_NaN_right: "fdiv a NaN = NaN"
  by (cases a) simp_all

lemma fsub_NaN_right: "fsub a NaN = NaN"
  by (cases a) (simp_all add: fsub_def)

lemma ma_signal_nth:
  assumes "moving_average_strategy d sw lw = Inr s" and "t < length (Close d)"
  shows "signal s ! t =
    (if fle (rolling_mean (nat sw) 1 (Close d) ! t) (rolling_mean (nat lw) 1 (Close d) ! t)
     then Fin 0
     else if fgt (rolling_mean (nat sw) 1 (Close d) ! t) (rolling_mean (nat lw) 1 (Close d) ! t)
     then Fin 1 else Fin 0)"
proof -
  from assms(1) have "signal s =
      map (\<lambda>(s, (a, b)). if fle a b then Fin 0 else s)
        (zip (map (\<lambda>(s, (a, b)). if fgt a b then Fin 1 else s)
               (zip (replicate (length (Close d)) (Fin 0))
                 (zip (rolling_mean (nat sw) 1 (Close d)) (rolling_mean (nat lw) 1 (Close d)))))
          (zip (rolling_mean (nat sw) 1 (Close d)) (rolling_mean (nat lw) 1 (Close d))))"
    by (auto simp: moving_average_strategy_def Let_def split: if_splits)
  then show ?thesis
    using assms(2) by (simp add: length_rolling_mean)
qed

lemma momentum_signal_nth:
  assumes "t < length (Close d)"
  shows "signal (momentum_strategy d w) ! t =
    (if fgt (fsub (Close d ! t) (shift w (Close d) ! t)) (Fin 0) then Fin 1 else Fin 0)"
  using assms by (simp add: momentum_strategy_def Let_def length_shift)

lemma mr_signal_nth:
  assumes "mean_reversion_strategy d w = Inr s" and "t < length (Close d)"
  shows "signal s ! t =
    (let z = fdiv (fsub (Close d ! t) (rolling_mean (nat w) (nat w) (Close d) ! t))
               (rolling_std (nat w) (nat w) (Close d) ! t)
     in if flt z (Fin (- 1)) then Fin 1 else if fgt z (Fin 1) then Fin (- 1) else Fin 0)"
proof -
  from assms(1) have "signal s =
      map (\<lambda>z. if flt z (Fin (- 1)) then Fin 1 else if fgt z (Fin 1) then Fin (- 1) else Fin 0)
        (map2 fdiv (map2 fsub (Close d) (rolling_mean (nat w) (nat w) (Close d)))
           (rolling_std (nat w) (nat w) (Close d)))"
    by (auto simp: mean_reversion_strategy_def Let_def split: if_splits)
  then show ?thesis
    using assms(2) by (simp add: length_rolling_mean length_rolling_std Let_def)
qed

lemma ma_first_signal:
  assumes "moving_average_strategy d sw lw = Inr s" and "Close d \<noteq> []"
  shows "signal s ! 0 = Fin 0"
proof -
  from assms(1) have w: "1 \<le> sw" "1 \<le> lw"
    by (auto simp: moving_average_strategy_def split: if_splits)
  from assms(2) have l: "0 < length (Close d)"
    by simp
  have "rolling_mean (nat sw) 1 (Close d) ! 0 = rolling_mean (nat lw) 1 (Close d) ! 0"
    using w by (simp add: nth_rolling_mean [OF l] window_at_head)
  then show ?thesis
    by (simp add: ma_signal_nth [OF assms(1) l] fgt_def flt_irrefl)
qed

lemma momentum_first_signal:
  assumes "1 \<le> w" and "Close d \<noteq> []"
  shows "signal (momentum_strategy d w) ! 0 = Fin 0"
proof -
  from assms(2) have l: "0 < length (Close d)"
    by simp
  have "shift w (Close d) ! 0 = NaN"
    using assms(1) l by (simp add: nth_shift_down)
  then show ?thesis
    by (simp add: momentum_signal_nth [OF l] fsub_NaN_right fgt_def)
qed

lemma std_first: "0 < length xs \<Longrightarrow> rolling_std w m xs ! 0 = NaN"
proof -
  assume l: "0 < length xs"
  have "length (window_at w xs 0) \<le> 1"
    by (simp add: window_at_def)
  with length_observations [of "window_at w xs 0"]
  have "length (observations (window_at w xs 0)) \<le> 1"
    by simp
  then show ?thesis
    by (simp add: nth_rolling_std [OF l] std_of_def)
qed

lemma mr_first_signal:
  assumes "mean_reversion_strategy d w = Inr s" and "Close d \<noteq> []"
  shows "signal s ! 0 = Fin 0"
proof -
  from assms(2) have l: "0 < length (Close d)"
    by simp
  show ?thesis
    by (simp add: mr_signal_nth [OF assms(1) l] std_first [OF l] fdiv_NaN_right fgt_def)
qed

lemma ma_first_position:
  assumes "moving_average_strategy d sw lw = Inr s" and "Close d \<noteq> []"
  shows "positions s ! 0 = Fin 0"
proof -
  from assms(1) have p: "positions s = fillna (Fin 0) (diff (signal s))"
    by (auto simp: moving_average_strategy_def Let_def split: if_splits)
  from assms have "signal s \<noteq> []"
    using ma_length(1) [OF assms(1)] by auto
  then show ?thesis
    unfolding p by (rule fillna_diff_head)
qed

lemma momentum_first_position:
  assumes "Close d \<noteq> []"
  shows "positions (momentum_strategy d w) ! 0 = Fin 0"
proof -
  have p: "positions (momentum_strategy d w) =
      fillna (Fin 0) (diff (signal (momentum_strategy d w)))"
    by (simp add: momentum_strategy_def Let_def)
  from assms have "signal (momentum_strategy d w) \<noteq> []"
    using momentum_length(1) [of d w] by auto
  then show ?thesis
    unfolding p by (rule fillna_diff_head)
qed

lemma mr_first_position:
  assumes "mean_reversion_strategy d w = Inr s" and "Close d \<noteq> []"
  shows "positions s ! 0 = Fin 0"
proof -
  from assms(1) have p: "positions s = fillna (Fin 0) (diff (signal s))"
    by (auto simp: mean_reversion_strategy_def Let_def split: if_splits)
  from assms have "signal s \<noteq> []"
    using mr_length(1) [OF assms(1)] by auto
  then show ?thesis
    unfolding p by (rule fillna_diff_head)
qed

section \<open>Frames without a signal\<close>

lemma diff_replicate:
  "fillna (Fin 0) (diff (replicate n (Fin 0))) = replicate n (Fin 0)"
proof (cases n)
  case 0
  then show ?thesis by (simp add: fillna_def)
next
  case (Suc m)
  have "zip (Fin 0 # replicate m (Fin 0)) (replicate m (Fin 0)) = replicate m (Fin 0, Fin 0)"
    by (induction m) simp_all
  then show ?thesis
    using Suc by (simp add: fillna_def fsub_def)
qed

lemma zero_or_nan_products:
  "length ys = n \<Longrightarrow> \<forall>x\<in>set (map2 fmul (replicate n (Fin 0)) ys). x = Fin 0 \<or> x = NaN"
proof (induction ys arbitrary: n)
  case Nil
  then show ?case by simp
next
  case (Cons y ys)
  then obtain m where n: "n = Suc m" and m: "length ys = m"
    by (cases n) auto
  from Cons.IH [OF m] fmul_zero_left [of y] show ?case
    by (auto simp: n)
qed

lemma fillna_zero_or_nan:
  "\<forall>x\<in>set xs. x = Fin 0 \<or> x = NaN \<Longrightarrow> fillna (Fin 0) xs = replicate (length xs) (Fin 0)"
  by (induction xs) (auto simp: fillna_def)

lemma cumsum_zero_or_nan:
  "\<forall>x\<in>set xs. x = Fin 0 \<or> x = NaN \<Longrightarrow>
    fillna (Fin 0) (cumsum_from (Fin 0) xs) = replicate (length xs) (Fin 0)"
  by (induction xs) (auto simp: fillna_def)

lemma backtest_flat:
  assumes "signal s = replicate n (Fin 0)"
  shows "holdings (backtest_strategy d s) = replicate n (Fin 0)"
    and "cash (backtest_strategy d s) = replicate n (Fin 10000)"
    and "total (backtest_strategy d s) = replicate n (Fin 10000)"
proof -
  define close where "close = reindex n (Close d)"
  have lc: "length close = n"
    by (simp add: close_def length_reindex)
  have crypto: "map (\<lambda>s. fmul s (Fin 1000)) (signal s) = replicate n (Fin 0)"
    by (simp add: assms)
  have z: "\<forall>x\<in>set (map2 fmul (replicate n (Fin 0)) close). x = Fin 0 \<or> x = NaN"
    by (rule zero_or_nan_products [OF lc])
  have l: "length (map2 fmul (replicate n (Fin 0)) close) = n"
    by (simp add: lc)
  have h: "fillna (Fin 0) (map2 fmul (replicate n (Fin 0)) close) = replicate n (Fin 0)"
    using fillna_zero_or_nan [OF z] l by simp
  have c: "fillna (Fin 0) (cumsum (map2 fmul (replicate n (Fin 0)) close)) = replicate n (Fin 0)"
    using cumsum_zero_or_nan [OF z] l by (simp add: cumsum_def)
  have bt: "backtest_strategy d s =
      \<lparr>holdings = replicate n (Fin 0), cash = replicate n (Fin 10000),
       total = map2 fadd (replicate n (Fin 10000)) (replicate n (Fin 0))\<rparr>"
    unfolding backtest_strategy_def Let_def crypto diff_replicate
    by (simp add: assms close_def [symmetric] h c fsub_def)
  show "holdings (backtest_strategy d s) = replicate n (Fin 0)"
    and "cash (backtest_strategy d s) = replicate n (Fin 10000)"
    by (simp_all add: bt)
  have "map2 fadd (replicate n (Fin 10000)) (replicate n (Fin 0)) = replicate n (Fin 10000)"
    by (induction n) simp_all
  then show "total (backtest_strategy d s) = replicate n (Fin 10000)"
    by (simp add: bt)
qed

lemma window_at_replicate:
  assumes "t < n"
  shows "window_at w (replicate n x) t = replicate (min w (Suc t)) x"
proof -
  have "min (Suc t) n - (Suc t - w) = min w (Suc t)"
    using assms by (simp add: min_def)
  then show ?thesis
    unfolding window_at_def take_replicate drop_replicate by (rule arg_cong)
qed

lemma observations_replicate: "observations (replicate k (Fin r)) = replicate k r"
  by (induction k) simp_all

lemma mean_of_replicate:
  "mean_of m (replicate k r) = (if m \<le> k \<and> 0 < k then Fin r else NaN)"
  by (simp add: mean_of_def sum_list_replicate)

lemma std_of_replicate:
  "std_of m (replicate k r) = (if m \<le> k \<and> 1 < k then Fin 0 else NaN)"
  by (simp add: std_of_def sum_list_replicate Let_def)

lemma z_score_constant:
  assumes "t < n"
  shows "fdiv (fsub (replicate n (Fin r) ! t) (rolling_mean w w (replicate n (Fin r)) ! t))
           (rolling_std w w (replicate n (Fin r)) ! t) = NaN"
  using assms
  by (simp add: nth_rolling_mean nth_rolling_std window_at_replicate observations_replicate
      mean_of_replicate std_of_replicate fsub_def signed_inf_def)

lemma mr_constant:
  assumes cl: "Close d = replicate n (Fin r)"
    and ret: "mean_reversion_strategy d w = Inr s"
  shows "signal s = replicate n (Fin 0)"
    and "positions s = replicate n (Fin 0)"
    and "map_of (indicators s) ''z_score'' = Some (replicate n NaN)"
proof -
  define k where "k = nat w"
  define zs where "zs = map2 fdiv (map2 fsub (Close d) (rolling_mean k k (Close d)))
      (rolling_std k k (Close d))"
  have z: "zs = replicate n NaN"
  proof (rule nth_equalityI)
    show "length zs = length (replicate n NaN)"
      by (simp add: zs_def cl length_rolling_mean length_rolling_std)
  next
    fix t
    assume "t < length zs"
    then have t: "t < n"
      by (simp add: zs_def cl length_rolling_mean length_rolling_std)
    then have "zs ! t = fdiv (fsub (replicate n (Fin r) ! t)
        (rolling_mean k k (replicate n (Fin r)) ! t)) (rolling_std k k (replicate n (Fin r)) ! t)"
      by (simp add: zs_def cl length_rolling_mean length_rolling_std)
    also have "\<dots> = NaN"
      by (rule z_score_constant [OF t])
    finally show "zs ! t = replicate n NaN ! t"
      using t by simp
  qed
  from ret have s: "s = \<lparr>price = Close d,
      indicators = [(''mean'', rolling_mean k k (Close d)), (''std'', rolling_std k k (Close d)),
        (''z_score'', zs)],
      signal = map (\<lambda>z. if flt z (Fin (- 1)) then Fin 1
          else if fgt z (Fin 1) then Fin (- 1) else Fin 0) zs,
      positions = fillna (Fin 0) (diff (map (\<lambda>z. if flt z (Fin (- 1)) then Fin 1
          else if fgt z (Fin 1) then Fin (- 1) else Fin 0) zs))\<rparr>"
    unfolding mean_reversion_strategy_def Let_def k_def zs_def
    by (simp split: if_splits)
  have sg: "map (\<lambda>z. if flt z (Fin (- 1)) then Fin 1
      else if fgt z (Fin 1) then Fin (- 1) else Fin 0) zs = replicate n (Fin 0)"
    unfolding z by (simp add: fgt_def)
  show "signal s = replicate n (Fin 0)"
    unfolding s using sg by simp
  show "positions s = replicate n (Fin 0)"
    unfolding s using sg by (simp add: diff_replicate)
  show "map_of (indicators s) ''z_score'' = Some (replicate n NaN)"
    unfolding s using z by simp
qed

section \<open>The value of the objective\<close>

lemma momentum_oversized:
  assumes "int (length (Close d)) \<le> w"
  shows "signal (momentum_strategy d w) = replicate (length (Close d)) (Fin 0)"
proof (rule nth_equalityI)
  show "length (signal (momentum_strategy d w)) = length (replicate (length (Close d)) (Fin 0))"
    by (simp add: momentum_length)
next
  fix t
  assume "t < length (signal (momentum_strategy d w))"
  then have t: "t < length (Close d)"
    by (simp add: momentum_length)
  with assms have "0 \<le> w" and "t < nat w"
    by simp_all
  then have "shift w (Close d) ! t = NaN"
    using t by (simp add: nth_shift_down)
  then show "signal (momentum_strategy d w) ! t = replicate (length (Close d)) (Fin 0) ! t"
    using t by (simp add: momentum_signal_nth fsub_NaN_right fgt_def)
qed

lemma length_window_at: "length (window_at w xs t) \<le> Suc t"
  by (simp add: window_at_def)

lemma mean_oversized:
  assumes "t < length xs" and "length xs < k"
  shows "rolling_mean k k xs ! t = NaN"
proof -
  have "length (observations (window_at k xs t)) \<le> Suc t"
    using length_observations [of "window_at k xs t"] length_window_at [of k xs t] by simp
  with assms have "\<not> k \<le> length (observations (window_at k xs t))"
    by simp
  then show ?thesis
    by (simp add: nth_rolling_mean [OF assms(1)] mean_of_def)
qed

lemma fdiv_NaN_left: "fdiv NaN b = NaN"
  by simp

lemma mr_oversized:
  assumes "mean_reversion_strategy d w = Inr s" and "int (length (Close d)) < w"
  shows "signal s = replicate (length (Close d)) (Fin 0)"
proof (rule nth_equalityI)
  show "length (signal s) = length (replicate (length (Close d)) (Fin 0))"
    using mr_length(1) [OF assms(1)] by simp
next
  fix t
  assume "t < length (signal s)"
  then have t: "t < length (Close d)"
    using mr_length(1) [OF assms(1)] by simp
  from assms(2) have "length (Close d) < nat w"
    by simp
  then have "rolling_mean (nat w) (nat w) (Close d) ! t = NaN"
    by (rule mean_oversized [OF t])
  then show "signal s ! t = replicate (length (Close d)) (Fin 0) ! t"
    using t by (simp add: mr_signal_nth [OF assms(1) t] fsub_NaN_right fgt_def)
qed

lemma range_no_inf:
  "set xs \<subseteq> {Fin (- 1), Fin 0, Fin 1} \<Longrightarrow> \<forall>x\<in>set xs. not_infinite x"
  by auto

lemma objective_unfold:
  assumes "py_int sw = Inr a" and "py_int lw = Inr b" and "py_int mw = Inr c"
    and "py_int rw = Inr e"
    and "moving_average_strategy d a b = Inr sma" and "mean_reversion_strategy d e = Inr smr"
  shows "objective d (sw, lw, mw, rw) =
    and_then (iloc_last (map (\<lambda>x. fdiv x (Fin 3))
      (map2 fadd (map2 fadd (total (backtest_strategy d sma))
          (total (backtest_strategy d (momentum_strategy d c))))
        (total (backtest_strategy d smr))))) (\<lambda>v. Inr (fneg v))"
  by (simp add: objective_def and_then_def Let_def assms)

lemma nth_last: "length xs = n \<Longrightarrow> 0 < n \<Longrightarrow> xs ! (n - 1) = last xs"
  using last_conv_nth [of xs] by auto

lemma combined_last:
  assumes "length xs = n" and "length ys = n" and "length zs = n" and "0 < n"
  shows "iloc_last (map (\<lambda>x. fdiv x (Fin 3)) (map2 fadd (map2 fadd xs ys) zs)) =
    Inr (fdiv (fadd (fadd (last xs) (last ys)) (last zs)) (Fin 3))"
proof -
  let ?c = "map (\<lambda>x. fdiv x (Fin 3)) (map2 fadd (map2 fadd xs ys) zs)"
  have l: "length ?c = n"
    using assms by simp
  with assms(4) have ne: "?c \<noteq> []"
    by auto
  have "last ?c = ?c ! (n - 1)"
    using l ne by (simp add: last_conv_nth)
  also have "\<dots> = fdiv (fadd (fadd (xs ! (n - 1)) (ys ! (n - 1))) (zs ! (n - 1))) (Fin 3)"
    using assms by simp
  also have "xs ! (n - 1) = last xs"
    by (rule nth_last [OF assms(1) assms(4)])
  also have "ys ! (n - 1) = last ys"
    by (rule nth_last [OF assms(2) assms(4)])
  also have "zs ! (n - 1) = last zs"
    by (rule nth_last [OF assms(3) assms(4)])
  finally show ?thesis
    using ne by (simp add: iloc_last_def)
qed

section \<open>The magnitudes of the columns\<close>

lemma bounded_by_mono: "bounded_by B x \<Longrightarrow> B \<le> C \<Longrightarrow> bounded_by C x"
  by (cases x) simp_all

lemma bounded_by_not_infinite: "bounded_by B x \<Longrightarrow> not_infinite x"
  by (cases x) simp_all

lemma fmul_bounded:
  assumes "bounded_by A a" and "bounded_by B b"
  shows "bounded_by (A * B) (fmul a b)"
proof (cases a)
  case (Fin r)
  note a = this
  show ?thesis
  proof (cases b)
    case (Fin q)
    from assms a Fin have "abs r \<le> A" and "abs q \<le> B"
      by simp_all
    then have "abs r * abs q \<le> A * B"
      by (intro mult_mono) simp_all
    then show ?thesis
      by (simp add: a Fin abs_mult)
  qed (use assms a in simp_all)
qed (use assms in simp_all)

lemma fadd_bounded:
  assumes "bounded_by A a" and "bounded_by B b"
  shows "bounded_by (A + B) (fadd a b)"
  using assms by (cases a; cases b) simp_all

lemma fsub_bounded:
  assumes "bounded_by A a" and "bounded_by B b"
  shows "bounded_by (A + B) (fsub a b)"
  using assms by (cases a; cases b) (simp_all add: fsub_def)

lemma fillna_bounded:
  "\<forall>x\<in>set xs. bounded_by B x \<Longrightarrow> 0 \<le> B \<Longrightarrow> \<forall>x\<in>set (fillna (Fin 0) xs). bounded_by B x"
  by (auto simp: fillna_def)

lemma diff_bounded:
  assumes "\<forall>x\<in>set xs. bounded_by B x"
  shows "\<forall>x\<in>set (diff xs). bounded_by (2 * B) x"
proof (cases xs)
  case Nil
  then show ?thesis by simp
next
  case (Cons y ys)
  have sub: "bounded_by (2 * B) (fsub cur prev)" if "bounded_by B prev" and "bounded_by B cur"
    for prev cur
    using fsub_bounded [OF that(2) that(1)] by simp
  have a: "\<forall>x\<in>set (y # ys). bounded_by B x" and b: "\<forall>x\<in>set ys. bounded_by B x"
    using assms Cons by simp_all
  have "\<forall>z\<in>set (map2 (\<lambda>prev cur. fsub cur prev) (y # ys) ys). bounded_by (2 * B) z"
    by (rule map2_pred [OF a b]) (rule sub)
  then show ?thesis
    using Cons by simp
qed

lemma cumsum_from_bounded:
  assumes "abs a \<le> A" and "0 \<le> M" and "\<forall>x\<in>set xs. bounded_by M x"
  shows "\<forall>x\<in>set (cumsum_from (Fin a) xs). bounded_by (A + M * real (length xs)) x"
  using assms
proof (induction xs arbitrary: a A)
  case Nil
  then show ?case by simp
next
  case (Cons y ys)
  have step: "A + M * real (length ys) \<le> A + M * real (length (y # ys))"
    using Cons.prems(2) by (simp add: algebra_simps)
  show ?case
  proof (cases y)
    case NaN
    have "\<forall>x\<in>set (cumsum_from (Fin a) ys). bounded_by (A + M * real (length ys)) x"
      using Cons.prems by (intro Cons.IH) simp_all
    then have "\<forall>x\<in>set (cumsum_from (Fin a) ys). bounded_by (A + M * real (length (y # ys))) x"
      using step by (blast intro: bounded_by_mono)
    then show ?thesis
      by (simp add: NaN)
  next
    case (Fin r)
    with Cons.prems have r: "abs r \<le> M"
      by simp
    with Cons.prems(1) have ar: "abs (a + r) \<le> A + M"
      by simp
    have "\<forall>x\<in>set (cumsum_from (Fin (a + r)) ys). bounded_by (A + M + M * real (length ys)) x"
      using ar Cons.prems(2,3) by (intro Cons.IH) simp_all
    moreover have "A + M + M * real (length ys) = A + M * real (length (y # ys))"
      by (simp add: algebra_simps)
    moreover have "A + M \<le> A + M * real (length (y # ys))"
      using Cons.prems(2) by (simp add: algebra_simps mult_nonneg_nonneg)
    ultimately show ?thesis
      using ar by (simp add: Fin)
  qed (use Cons.prems in simp_all)
qed

lemma reindex_bounded: "\<forall>x\<in>set xs. bounded_by B x \<Longrightarrow> \<forall>x\<in>set (reindex n xs). bounded_by B x"
  by (auto simp: reindex_def dest: in_set_takeD)


lemma backtest_bounded:
  assumes sg: "\<forall>x\<in>set (signal s). bounded_by 1 x" and cl: "\<forall>x\<in>set (Close d). bounded_by B x"
    and B: "0 \<le> B"
  shows "\<forall>x\<in>set (holdings (backtest_strategy d s)). bounded_by (1000 * B) x"
    and "\<forall>x\<in>set (cash (backtest_strategy d s)).
           bounded_by (10000 + 2000 * B * real (length (signal s))) x"
    and "\<forall>x\<in>set (total (backtest_strategy d s)).
           bounded_by (10000 + 2000 * B * real (length (signal s)) + 1000 * B) x"
proof -
  define crypto where "crypto = map (\<lambda>s. fmul s (Fin 1000)) (signal s)"
  define close where "close = reindex (length (signal s)) (Close d)"
  define trades where "trades = map2 fmul (fillna (Fin 0) (diff crypto)) close"
  define hs where "hs = fillna (Fin 0) (map2 fmul crypto close)"
  define cs where "cs = map (fsub (Fin 10000)) (fillna (Fin 0) (cumsum trades))"
  have bt: "backtest_strategy d s = \<lparr>holdings = hs, cash = cs, total = map2 fadd cs hs\<rparr>"
    by (simp add: backtest_strategy_def Let_def crypto_def close_def hs_def cs_def trades_def)
  have "bounded_by (1 * 1000) (fmul x (Fin 1000))" if "bounded_by 1 x" for x
    using that by (intro fmul_bounded) simp_all
  then have c1: "\<forall>x\<in>set crypto. bounded_by 1000 x"
    using sg by (simp add: crypto_def)
  have c2: "\<forall>x\<in>set close. bounded_by B x"
    unfolding close_def by (rule reindex_bounded [OF cl])
  have "\<forall>x\<in>set (map2 fmul crypto close). bounded_by (1000 * B) x"
    by (rule map2_pred [OF c1 c2]) (rule fmul_bounded)
  then have h: "\<forall>x\<in>set hs. bounded_by (1000 * B) x"
    unfolding hs_def using B by (intro fillna_bounded) simp_all
  have "\<forall>x\<in>set (diff crypto). bounded_by (2 * 1000) x"
    by (rule diff_bounded [OF c1])
  then have "\<forall>x\<in>set (fillna (Fin 0) (diff crypto)). bounded_by 2000 x"
    by (intro fillna_bounded) simp_all
  then have tr: "\<forall>x\<in>set trades. bounded_by (2000 * B) x"
    unfolding trades_def by (rule map2_pred [OF _ c2]) (rule fmul_bounded)
  have lt: "length trades = length (signal s)"
    by (simp add: trades_def close_def crypto_def length_fillna length_diff length_reindex)
  have "\<forall>x\<in>set (cumsum_from (Fin 0) trades). bounded_by (0 + 2000 * B * real (length trades)) x"
    using B by (intro cumsum_from_bounded tr) simp_all
  then have "\<forall>x\<in>set (cumsum trades). bounded_by (2000 * B * real (length (signal s))) x"
    by (simp add: cumsum_def lt)
  then have "\<forall>x\<in>set (fillna (Fin 0) (cumsum trades)).
      bounded_by (2000 * B * real (length (signal s))) x"
    using B by (intro fillna_bounded) simp_all
  then have c: "\<forall>x\<in>set cs. bounded_by (10000 + 2000 * B * real (length (signal s))) x"
    by (auto simp: cs_def intro!: fsub_bounded)
  have t: "\<forall>x\<in>set (map2 fadd cs hs).
      bounded_by (10000 + 2000 * B * real (length (signal s)) + 1000 * B) x"
    by (rule map2_pred [OF c h]) (rule fadd_bounded)
  show "\<forall>x\<in>set (holdings (backtest_strategy d s)). bounded_by (1000 * B) x"
    and "\<forall>x\<in>set (cash (backtest_strategy d s)).
           bounded_by (10000 + 2000 * B * real (length (signal s))) x"
    and "\<forall>x\<in>set (total (backtest_strategy d s)).
           bounded_by (10000 + 2000 * B * real (length (signal s)) + 1000 * B) x"
    using h c t by (simp_all add: bt)
qed

lemma range_bounded:
  "set xs \<subseteq> {Fin (- 1), Fin 0, Fin 1} \<Longrightarrow> \<forall>x\<in>set xs. bounded_by 1 x"
  by auto

lemma backtest_in_range:
  assumes sg: "set (signal s) \<subseteq> {Fin (- 1), Fin 0, Fin 1}"
    and len: "length (signal s) = length (Close d)"
    and cl: "\<forall>x\<in>set (Close d). bounded_by B x" and B: "0 \<le> B"
    and room: "4 * (10000 + (2000 * real (length (Close d)) + 1000) * B) \<le> max_double"
  shows "portfolio_in_range (backtest_strategy d s)"
proof -
  let ?T = "10000 + (2000 * real (length (Close d)) + 1000) * B"
  have T: "?T \<le> max_double / 4"
    using room by simp
  have s1: "\<forall>x\<in>set (signal s). bounded_by 1 x"
    using sg by (rule range_bounded)
  have s2: "\<forall>x\<in>set (signal s). not_infinite x"
    using sg by (rule range_no_inf)
  have c2: "\<forall>x\<in>set (Close d). not_infinite x"
    using cl by (blast intro: bounded_by_not_infinite)
  have nB: "0 \<le> real (length (Close d)) * B"
    using B by simp
  have "1000 * B \<le> ?T"
    using B nB by (simp add: algebra_simps)
  then have h: "\<forall>x\<in>set (holdings (backtest_strategy d s)). bounded_by (max_double / 4) x"
    using backtest_bounded(1) [OF s1 cl B] T by (blast intro: bounded_by_mono order_trans)
  have "10000 + 2000 * B * real (length (signal s)) \<le> ?T"
    using B by (simp add: len algebra_simps)
  then have c: "\<forall>x\<in>set (cash (backtest_strategy d s)). bounded_by (max_double / 4) x"
    using backtest_bounded(2) [OF s1 cl B] T by (blast intro: bounded_by_mono order_trans)
  have "10000 + 2000 * B * real (length (signal s)) + 1000 * B = ?T"
    by (simp add: len algebra_simps)
  then have t: "\<forall>x\<in>set (total (backtest_strategy d s)). bounded_by (max_double / 4) x"
    using backtest_bounded(3) [OF s1 cl B] T by (auto intro: bounded_by_mono)
  show ?thesis
    unfolding portfolio_in_range_def list_all_iff in_range_def
    using h c t backtest_columns_fin [OF s2 c2] by blast
qed

lemma last_in_range:
  assumes "list_all in_range xs" and "xs \<noteq> []"
  obtains u where "last xs = Fin u" and "abs u \<le> max_double / 4"
proof -
  from assms have "in_range (last xs)"
    by (simp add: list_all_iff)
  then show ?thesis
    using that by (cases "last xs") (simp_all add: in_range_def)
qed

lemma mean_of_three_in_range:
  assumes "abs u \<le> M" and "abs v \<le> M" and "abs w \<le> M"
  shows "abs (- ((u + v + w) / 3)) \<le> (M :: real)"
  using assms by simp

lemma momentum_column:
  "map_of (indicators (momentum_strategy d w)) ''momentum'' =
     Some (map2 fsub (Close d) (shift w (Close d)))"
  by (simp add: momentum_strategy_def Let_def)

lemma momentum_undefined:
  assumes "t < length (Close d)" and "map2 fsub (Close d) (shift w (Close d)) ! t = NaN"
  shows "signal (momentum_strategy d w) ! t = Fin 0"
proof -
  from assms have "fsub (Close d ! t) (shift w (Close d) ! t) = NaN"
    by (simp add: length_shift)
  then show ?thesis
    by (simp add: momentum_signal_nth [OF assms(1)] fgt_def)
qed

lemma momentum_column_oversized:
  assumes "int (length (Close d)) \<le> w"
  shows "map2 fsub (Close d) (shift w (Close d)) = replicate (length (Close d)) NaN"
proof (rule nth_equalityI)
  show "length (map2 fsub (Close d) (shift w (Close d))) = length (replicate (length (Close d)) NaN)"
    by (simp add: length_shift)
next
  fix t
  assume "t < length (map2 fsub (Close d) (shift w (Close d)))"
  then have t: "t < length (Close d)"
    by (simp add: length_shift)
  with assms have "0 \<le> w" and "t < nat w"
    by simp_all
  then have "shift w (Close d) ! t = NaN"
    using t by (simp add: nth_shift_down)
  then show "map2 fsub (Close d) (shift w (Close d)) ! t = replicate (length (Close d)) NaN ! t"
    using t by (simp add: length_shift fsub_NaN_right)
qed

lemma mr_column:
  assumes "mean_reversion_strategy d w = Inr s"
  shows "map_of (indicators s) ''z_score'' =
     Some (map2 fdiv (map2 fsub (Close d) (rolling_mean (nat w) (nat w) (Close d)))
       (rolling_std (nat w) (nat w) (Close d)))"
  using assms by (auto simp: mean_reversion_strategy_def Let_def split: if_splits)

lemma mr_undefined:
  assumes "mean_reversion_strategy d w = Inr s" and "t < length (Close d)"
    and "map2 fdiv (map2 fsub (Close d) (rolling_mean (nat w) (nat w) (Close d)))
       (rolling_std (nat w) (nat w) (Close d)) ! t = NaN"
  shows "signal s ! t = Fin 0"
proof -
  from assms(2,3) have "fdiv (fsub (Close d ! t) (rolling_mean (nat w) (nat w) (Close d) ! t))
      (rolling_std (nat w) (nat w) (Close d) ! t) = NaN"
    by (simp add: length_rolling_mean length_rolling_std)
  then show ?thesis
    by (simp add: mr_signal_nth [OF assms(1,2)] fgt_def)
qed

lemma mr_column_oversized:
  assumes "int (length (Close d)) < w"
  shows "map2 fdiv (map2 fsub (Close d) (rolling_mean (nat w) (nat w) (Close d)))
       (rolling_std (nat w) (nat w) (Close d)) = replicate (length (Close d)) NaN"
proof (rule nth_equalityI)
  show "length (map2 fdiv (map2 fsub (Close d) (rolling_mean (nat w) (nat w) (Close d)))
       (rolling_std (nat w) (nat w) (Close d))) = length (replicate (length (Close d)) NaN)"
    by (simp add: length_rolling_mean length_rolling_std)
next
  fix t
  assume "t < length (map2 fdiv (map2 fsub (Close d) (rolling_mean (nat w) (nat w) (Close d)))
       (rolling_std (nat w) (nat w) (Close d)))"
  then have t: "t < length (Close d)"
    by (simp add: length_rolling_mean length_rolling_std)
  from assms have "length (Close d) < nat w"
    by simp
  then have "rolling_mean (nat w) (nat w) (Close d) ! t = NaN"
    by (rule mean_oversized [OF t])
  then show "map2 fdiv (map2 fsub (Close d) (rolling_mean (nat w) (nat w) (Close d)))
       (rolling_std (nat w) (nat w) (Close d)) ! t = replicate (length (Close d)) NaN ! t"
    using t by (simp add: length_rolling_mean length_rolling_std fsub_NaN_right)
qed

lemma objective_in_range:
  assumes ne: "Close d \<noteq> []" and B: "0 \<le> B" and cl: "\<forall>x\<in>set (Close d). bounded_by B x"
    and room: "4 * (10000 + (2000 * real (length (Close d)) + 1000) * B) \<le> max_double"
    and ints: "py_int sw = Inr a" "py_int lw = Inr b" "py_int mw = Inr c" "py_int rw = Inr e"
    and ma: "moving_average_strategy d a b = Inr sma"
    and mr: "mean_reversion_strategy d e = Inr smr"
  shows "portfolio_in_range (backtest_strategy d sma)"
    and "portfolio_in_range (backtest_strategy d (momentum_strategy d c))"
    and "portfolio_in_range (backtest_strategy d smr)"
    and "\<exists>u v w. last (total (backtest_strategy d sma)) = Fin u \<and>
      last (total (backtest_strategy d (momentum_strategy d c))) = Fin v \<and>
      last (total (backtest_strategy d smr)) = Fin w \<and>
      objective d (sw, lw, mw, rw) = Inr (Fin (- ((u + v + w) / 3))) \<and>
      in_range (Fin (- ((u + v + w) / 3)))"
proof -
  let ?n = "length (Close d)"
  let ?ta = "total (backtest_strategy d sma)"
  let ?tb = "total (backtest_strategy d (momentum_strategy d c))"
  let ?tc = "total (backtest_strategy d smr)"
  have n: "0 < ?n"
    using ne by simp
  have la: "length ?ta = ?n"
    by (simp add: length_backtest ma_length(1) [OF ma])
  have lb: "length ?tb = ?n"
    by (simp add: length_backtest momentum_length)
  have lc: "length ?tc = ?n"
    by (simp add: length_backtest mr_length(1) [OF mr])
  have "set (signal sma) \<subseteq> {Fin (- 1), Fin 0, Fin 1}"
    using ma_signal_range [OF ma] by auto
  then show pa: "portfolio_in_range (backtest_strategy d sma)"
    using ma_length(1) [OF ma] cl B room by (rule backtest_in_range)
  have "set (signal (momentum_strategy d c)) \<subseteq> {Fin (- 1), Fin 0, Fin 1}"
    using momentum_signal_range [of d c] by auto
  then show pb: "portfolio_in_range (backtest_strategy d (momentum_strategy d c))"
    using momentum_length(1) cl B room by (rule backtest_in_range)
  have "set (signal smr) \<subseteq> {Fin (- 1), Fin 0, Fin 1}"
    using mr_signal_range [OF mr] by auto
  then show pc: "portfolio_in_range (backtest_strategy d smr)"
    using mr_length(1) [OF mr] cl B room by (rule backtest_in_range)
  from pa la n obtain u where u: "last ?ta = Fin u" "abs u \<le> max_double / 4"
    by (auto simp: portfolio_in_range_def elim: last_in_range)
  from pb lb n obtain v where v: "last ?tb = Fin v" "abs v \<le> max_double / 4"
    by (auto simp: portfolio_in_range_def elim: last_in_range)
  from pc lc n obtain w where w: "last ?tc = Fin w" "abs w \<le> max_double / 4"
    by (auto simp: portfolio_in_range_def elim: last_in_range)
  have "objective d (sw, lw, mw, rw) = Inr (Fin (- ((u + v + w) / 3)))"
    unfolding objective_unfold [OF ints ma mr] combined_last [OF la lb lc n] u(1) v(1) w(1)
    by (simp add: and_then_def)
  moreover have "in_range (Fin (- ((u + v + w) / 3)))"
    using mean_of_three_in_range [OF u(2) v(2) w(2)] by (simp add: in_range_def)
  ultimately show "\<exists>u v w. last ?ta = Fin u \<and> last ?tb = Fin v \<and> last ?tc = Fin w \<and>
      objective d (sw, lw, mw, rw) = Inr (Fin (- ((u + v + w) / 3))) \<and>
      in_range (Fin (- ((u + v + w) / 3)))"
    using u(1) v(1) w(1) by blast
qed

text \<open>The definitions to unfold when a concrete run is evaluated.\<close>

lemmas ev = objective_def and_then_def moving_average_strategy_def momentum_strategy_def
  mean_reversion_strategy_def backtest_strategy_def rolling_mean_def rolling_std_def window_at_def
  mean_of_def std_of_def shift_def fsub_def fgt_def fillna_def cumsum_def reindex_def iloc_last_def
  signed_inf_def Let_def

section \<open>Claims on the backtest\<close>

text \<open>
  C1, as the code has it. For every series of finite prices and every aligned frame of
  finite signals, with \<open>position[k] = signal[k] * 1000\<close>, the cash at bar \<open>t\<close> is
  \<open>10000 - \<Sum>k=1..t. (position[k] - position[k-1]) * price[k]\<close>: \<open>diff().fillna(0)\<close>
  makes the change of position at bar 0 zero, so the sum starts at bar 1 and the position
  held at bar 0 is never paid for. The cash is the closed form of the specification
  (which takes \<open>position[-1] = 0\<close>) plus \<open>position[0] * price[0]\<close>.
\<close>

theorem cash_closed_form:
  assumes "length sig = length prices" and "t < length prices" and "signal s = map Fin sig"
  shows "cash (backtest_strategy \<lparr>Close = map Fin prices\<rparr> s) ! t =
      Fin (10000 - (\<Sum>k\<in>{1..t}. (sig ! k * 1000 - sig ! (k - 1) * 1000) * prices ! k)) \<and>
    cash (backtest_strategy \<lparr>Close = map Fin prices\<rparr> s) ! t =
      Fin (spec_cash prices sig t + sig ! 0 * 1000 * prices ! 0)"
proof -
  have "cash (backtest_strategy \<lparr>Close = map Fin prices\<rparr> s) ! t =
      Fin (10000 - (\<Sum>k\<in>{1..t}. (sig ! k * 1000 - sig ! (k - 1) * 1000) * prices ! k))"
    using assms by (rule cash_finite_inputs)
  then show ?thesis
    by (simp add: spec_cash_split)
qed

theorem cash_closed_form_witness:
  "cash (backtest_strategy \<lparr>Close = map Fin [103, 105, 92]\<rparr>
     \<lparr>price = [Fin 103, Fin 105, Fin 92], indicators = [],
      signal = map Fin [0, 1, 0], positions = [Fin 0, Fin 1, Fin (- 1)]\<rparr>) ! 2 =
     Fin (10000 - ((1 * 1000 - 0 * 1000) * 105 + (0 * 1000 - 1 * 1000) * 92)) \<and>
   spec_cash [103, 105, 92] [0, 1, 0] 2 = - 3000"
  using cash_closed_form
    [where sig = "[0, 1, 0]" and prices = "[103, 105, 92]" and t = 2
       and s = "\<lparr>price = [Fin 103, Fin 105, Fin 92], indicators = [],
         signal = map Fin [0, 1, 0], positions = [Fin 0, Fin 1, Fin (- 1)]\<rparr>"]
  by (simp add: backtest_strategy_def reindex_def fillna_def cumsum_def fsub_def Let_def)

text \<open>
  C1 as stated fails on a frame whose first signal is 1: on one bar at the price 100 the
  cash is 10000, and the closed form of the specification gives -90000.
\<close>

theorem cash_closed_form_counterexample:
  "cash (backtest_strategy \<lparr>Close = [Fin 100]\<rparr>
     \<lparr>price = [Fin 100], indicators = [], signal = [Fin 1], positions = [Fin 0]\<rparr>) ! 0
     = Fin 10000 \<and>
   spec_cash [100] [1] 0 = - 90000 \<and>
   \<not> feq (Fin 10000) (Fin (spec_cash [100] [1] 0))"
  by (simp add: backtest_strategy_def reindex_def fillna_def cumsum_def fsub_def Let_def
      spec_cash_def spec_position_def feq_def)

text \<open>
  C3, as the code has it. The backtest reads the column \<open>signal\<close> only, never the
  column \<open>positions\<close>: for every price series and every frame of signals whose first
  signal is 0, the first total equity is the initial capital 10000.
\<close>

theorem first_equity_is_initial_capital:
  assumes "signal s \<noteq> []" and "signal s ! 0 = Fin 0"
  shows "total (backtest_strategy d s) ! 0 = Fin 10000"
  using assms by (rule backtest_total_0)

theorem first_equity_is_initial_capital_witness:
  "total (backtest_strategy \<lparr>Close = [Fin 103, Fin 105, Fin 92]\<rparr>
     \<lparr>price = [Fin 103, Fin 105, Fin 92], indicators = [],
      signal = [Fin 0, Fin 1, Fin 0], positions = [Fin 0, Fin 1, Fin (- 1)]\<rparr>) ! 0 = Fin 10000"
  using first_equity_is_initial_capital
    [where s = "\<lparr>price = [Fin 103, Fin 105, Fin 92], indicators = [],
         signal = [Fin 0, Fin 1, Fin 0], positions = [Fin 0, Fin 1, Fin (- 1)]\<rparr>"
       and d = "\<lparr>Close = [Fin 103, Fin 105, Fin 92]\<rparr>"]
  by simp

text \<open>
  C3 as stated fails: a frame whose first signal is 1 and whose first change of position
  is 0, as the convention for the first bar has it, starts with the equity 110000 on a
  price of 100.
\<close>

theorem first_equity_counterexample:
  "length (signal \<lparr>price = [Fin 100], indicators = [], signal = [Fin 1], positions = [Fin 0]\<rparr>)
     = length (Close \<lparr>Close = [Fin 100]\<rparr>) \<and>
   positions \<lparr>price = [Fin 100], indicators = [], signal = [Fin 1], positions = [Fin 0]\<rparr> ! 0
     = Fin 0 \<and>
   total (backtest_strategy \<lparr>Close = [Fin 100]\<rparr>
     \<lparr>price = [Fin 100], indicators = [], signal = [Fin 1], positions = [Fin 0]\<rparr>) ! 0
     = Fin 110000 \<and>
   \<not> feq (Fin 110000) (Fin 10000)"
  by (simp add: backtest_strategy_def reindex_def fillna_def cumsum_def fsub_def feq_def)



section \<open>Claims on the signals\<close>

text \<open>
  C5. On the ten bars closing at 100, 101, ..., 109 \<open>momentum_strategy\<close> with the window
  3 gives the signal 0 at the bars 0 to 2 and 1 from bar 3 on; the column of the changes
  of position holds exactly one +1 and no -1.
\<close>

theorem momentum_rising_series:
  "signal (momentum_strategy
      \<lparr>Close = [Fin 100, Fin 101, Fin 102, Fin 103, Fin 104, Fin 105, Fin 106, Fin 107, Fin 108,
                Fin 109]\<rparr> 3) =
     [Fin 0, Fin 0, Fin 0, Fin 1, Fin 1, Fin 1, Fin 1, Fin 1, Fin 1, Fin 1] \<and>
   positions (momentum_strategy
      \<lparr>Close = [Fin 100, Fin 101, Fin 102, Fin 103, Fin 104, Fin 105, Fin 106, Fin 107, Fin 108,
                Fin 109]\<rparr> 3) =
     [Fin 0, Fin 0, Fin 0, Fin 1, Fin 0, Fin 0, Fin 0, Fin 0, Fin 0, Fin 0] \<and>
   count_list (positions (momentum_strategy
      \<lparr>Close = [Fin 100, Fin 101, Fin 102, Fin 103, Fin 104, Fin 105, Fin 106, Fin 107, Fin 108,
                Fin 109]\<rparr> 3)) (Fin 1) = 1 \<and>
   count_list (positions (momentum_strategy
      \<lparr>Close = [Fin 100, Fin 101, Fin 102, Fin 103, Fin 104, Fin 105, Fin 106, Fin 107, Fin 108,
                Fin 109]\<rparr> 3)) (Fin (- 1)) = 0"
  by (simp add: momentum_strategy_def shift_def fsub_def fgt_def fillna_def Let_def)

text \<open>
  C6. On a series that closes at 100 at every bar, whatever its length,
  \<open>mean_reversion_strategy\<close> with the window 5 returns a frame: the rolling standard
  deviation of a full window is 0, the z-score \<open>0 / 0\<close> is NaN at every bar, the signal
  is 0 at every bar, and the total equity of the backtest is 10000 at every bar.
\<close>

theorem constant_series_stays_flat:
  "\<exists>s. mean_reversion_strategy \<lparr>Close = replicate n (Fin 100)\<rparr> 5 = Inr s \<and>
     map_of (indicators s) ''z_score'' = Some (replicate n NaN) \<and>
     signal s = replicate n (Fin 0) \<and>
     total (backtest_strategy \<lparr>Close = replicate n (Fin 100)\<rparr> s) = replicate n (Fin 10000)"
proof -
  from mr_returns [of 5 "\<lparr>Close = replicate n (Fin 100)\<rparr>"] obtain s
    where s: "mean_reversion_strategy \<lparr>Close = replicate n (Fin 100)\<rparr> 5 = Inr s"
    by auto
  have cl: "Close \<lparr>Close = replicate n (Fin 100)\<rparr> = replicate n (Fin 100)"
    by simp
  note c = mr_constant [OF cl s]
  from s c(3) c(1) backtest_flat(3) [OF c(1)] show ?thesis
    by blast
qed

theorem constant_series_stays_flat_witness:
  "mean_reversion_strategy \<lparr>Close = replicate 6 (Fin 100)\<rparr> 5 =
     Inr \<lparr>price = [Fin 100, Fin 100, Fin 100, Fin 100, Fin 100, Fin 100],
          indicators = [(''mean'', [NaN, NaN, NaN, NaN, Fin 100, Fin 100]),
                        (''std'', [NaN, NaN, NaN, NaN, Fin 0, Fin 0]),
                        (''z_score'', [NaN, NaN, NaN, NaN, NaN, NaN])],
          signal = [Fin 0, Fin 0, Fin 0, Fin 0, Fin 0, Fin 0],
          positions = [Fin 0, Fin 0, Fin 0, Fin 0, Fin 0, Fin 0]\<rparr>"
  using constant_series_stays_flat [of 6]
  by (simp add: ev eval_nat_numeral)

text \<open>
  C7. For every price series and every window, the signal column that
  \<open>moving_average_strategy\<close> produces holds only 0 and 1, the one of \<open>momentum_strategy\<close>
  only 0 and 1, and the one of \<open>mean_reversion_strategy\<close> only -1, 0 and 1, one value
  for each bar. A strategy that produces no frame has raised pandas' ValueError for its
  window: a moving-average window below 1, a negative mean-reversion window.
\<close>

theorem signal_values_in_range:
  "(case moving_average_strategy d sw lw of
      Inl e \<Rightarrow> e = ValueError \<and> (sw < 1 \<or> lw < 1)
    | Inr s \<Rightarrow> length (signal s) = length (Close d) \<and> set (signal s) \<subseteq> {Fin 0, Fin 1}) \<and>
   length (signal (momentum_strategy d mw)) = length (Close d) \<and>
   set (signal (momentum_strategy d mw)) \<subseteq> {Fin 0, Fin 1} \<and>
   (case mean_reversion_strategy d rw of
      Inl e \<Rightarrow> e = ValueError \<and> rw < 0
    | Inr s \<Rightarrow> length (signal s) = length (Close d) \<and>
        set (signal s) \<subseteq> {Fin (- 1), Fin 0, Fin 1})"
proof -
  have ma: "case moving_average_strategy d sw lw of
      Inl e \<Rightarrow> e = ValueError \<and> (sw < 1 \<or> lw < 1)
    | Inr s \<Rightarrow> length (signal s) = length (Close d) \<and> set (signal s) \<subseteq> {Fin 0, Fin 1}"
    using ma_raises [of d sw lw] ma_length(1) [of d sw lw] ma_signal_range [of d sw lw]
    by (cases "moving_average_strategy d sw lw") simp_all
  have mr: "case mean_reversion_strategy d rw of
      Inl e \<Rightarrow> e = ValueError \<and> rw < 0
    | Inr s \<Rightarrow> length (signal s) = length (Close d) \<and>
        set (signal s) \<subseteq> {Fin (- 1), Fin 0, Fin 1}"
    using mr_raises [of d rw] mr_length(1) [of d rw] mr_signal_range [of d rw]
    by (cases "mean_reversion_strategy d rw") simp_all
  show ?thesis
    using ma mr momentum_length(1) [of d mw] momentum_signal_range [of d mw] by simp
qed

theorem signal_values_in_range_witness:
  "moving_average_strategy \<lparr>Close = [Fin 103, Fin 105, Fin 92]\<rparr> 1 2 =
     Inr \<lparr>price = [Fin 103, Fin 105, Fin 92],
          indicators = [(''short_mavg'', [Fin 103, Fin 105, Fin 92]),
                        (''long_mavg'', [Fin 103, Fin 104, Fin (197 / 2)])],
          signal = [Fin 0, Fin 1, Fin 0],
          positions = [Fin 0, Fin 1, Fin (- 1)]\<rparr> \<and>
   signal (momentum_strategy \<lparr>Close = [Fin 103, Fin 105, Fin 92]\<rparr> 1) = [Fin 0, Fin 1, Fin 0] \<and>
   set (signal (momentum_strategy \<lparr>Close = [Fin 103, Fin 105, Fin 92]\<rparr> 1)) \<subseteq> {Fin 0, Fin 1} \<and>
   (case mean_reversion_strategy \<lparr>Close = [Fin 103, Fin 105, Fin 92]\<rparr> 3 of
      Inl e \<Rightarrow> False
    | Inr s \<Rightarrow> signal s = [Fin 0, Fin 0, Fin 1] \<and> set (signal s) \<subseteq> {Fin (- 1), Fin 0, Fin 1})"
proof -
  have sq: "sqrt 49 = 7"
    by (rule real_sqrt_unique) simp_all
  show ?thesis
    using signal_values_in_range
      [where d = "\<lparr>Close = [Fin 103, Fin 105, Fin 92]\<rparr>" and sw = 1 and lw = 2 and mw = 1
         and rw = 3]
    by (simp add: moving_average_strategy_def momentum_strategy_def mean_reversion_strategy_def
        rolling_mean_def rolling_std_def window_at_def mean_of_def std_of_def shift_def
        fsub_def fgt_def fillna_def signed_inf_def Let_def power2_eq_square sq)
qed

text \<open>
  C10. For every non-empty price series and windows of at least 1, each of the three
  strategies returns a frame whose signal at the first bar is 0; so is its change of
  position, and the first total equity of its backtest is 10000.
\<close>

theorem first_bar_has_no_signal:
  assumes "Close d \<noteq> []" and "1 \<le> sw" and "1 \<le> lw" and "1 \<le> mw" and "1 \<le> rw"
  shows "(\<exists>s. moving_average_strategy d sw lw = Inr s \<and> signal s ! 0 = Fin 0 \<and>
        positions s ! 0 = Fin 0 \<and> total (backtest_strategy d s) ! 0 = Fin 10000) \<and>
    signal (momentum_strategy d mw) ! 0 = Fin 0 \<and>
    positions (momentum_strategy d mw) ! 0 = Fin 0 \<and>
    total (backtest_strategy d (momentum_strategy d mw)) ! 0 = Fin 10000 \<and>
    (\<exists>s. mean_reversion_strategy d rw = Inr s \<and> signal s ! 0 = Fin 0 \<and>
        positions s ! 0 = Fin 0 \<and> total (backtest_strategy d s) ! 0 = Fin 10000)"
proof (intro conjI)
  from ma_returns [OF assms(2,3)] obtain s where s: "moving_average_strategy d sw lw = Inr s" ..
  have ne: "signal s \<noteq> []"
    using ma_length(1) [OF s] assms(1) by auto
  have z: "signal s ! 0 = Fin 0"
    using s assms(1) by (rule ma_first_signal)
  from s z ma_first_position [OF s assms(1)] backtest_total_0 [OF ne z]
  show "\<exists>s. moving_average_strategy d sw lw = Inr s \<and> signal s ! 0 = Fin 0 \<and>
        positions s ! 0 = Fin 0 \<and> total (backtest_strategy d s) ! 0 = Fin 10000"
    by blast
next
  show z: "signal (momentum_strategy d mw) ! 0 = Fin 0"
    using assms(4,1) by (rule momentum_first_signal)
  show "positions (momentum_strategy d mw) ! 0 = Fin 0"
    using assms(1) by (rule momentum_first_position)
  have ne: "signal (momentum_strategy d mw) \<noteq> []"
    using momentum_length(1) [of d mw] assms(1) by auto
  show "total (backtest_strategy d (momentum_strategy d mw)) ! 0 = Fin 10000"
    using ne z by (rule backtest_total_0)
next
  from assms(5) have "0 \<le> rw"
    by simp
  from mr_returns [OF this] obtain s where s: "mean_reversion_strategy d rw = Inr s" ..
  have ne: "signal s \<noteq> []"
    using mr_length(1) [OF s] assms(1) by auto
  have z: "signal s ! 0 = Fin 0"
    using s assms(1) by (rule mr_first_signal)
  from s z mr_first_position [OF s assms(1)] backtest_total_0 [OF ne z]
  show "\<exists>s. mean_reversion_strategy d rw = Inr s \<and> signal s ! 0 = Fin 0 \<and>
        positions s ! 0 = Fin 0 \<and> total (backtest_strategy d s) ! 0 = Fin 10000"
    by blast
qed

theorem first_bar_has_no_signal_witness:
  "(\<exists>s. moving_average_strategy \<lparr>Close = [Fin 103, Fin 105, Fin 92]\<rparr> 1 2 = Inr s \<and>
        signal s ! 0 = Fin 0 \<and> positions s ! 0 = Fin 0 \<and>
        total (backtest_strategy \<lparr>Close = [Fin 103, Fin 105, Fin 92]\<rparr> s) ! 0 = Fin 10000) \<and>
   signal (momentum_strategy \<lparr>Close = [Fin 103, Fin 105, Fin 92]\<rparr> 1) = [Fin 0, Fin 1, Fin 0] \<and>
   total (backtest_strategy \<lparr>Close = [Fin 103, Fin 105, Fin 92]\<rparr>
     (momentum_strategy \<lparr>Close = [Fin 103, Fin 105, Fin 92]\<rparr> 1)) ! 0 = Fin 10000 \<and>
   (\<exists>s. mean_reversion_strategy \<lparr>Close = [Fin 103, Fin 105, Fin 92]\<rparr> 1 = Inr s \<and>
        signal s ! 0 = Fin 0 \<and> positions s ! 0 = Fin 0 \<and>
        total (backtest_strategy \<lparr>Close = [Fin 103, Fin 105, Fin 92]\<rparr> s) ! 0 = Fin 10000)"
  using first_bar_has_no_signal
    [where d = "\<lparr>Close = [Fin 103, Fin 105, Fin 92]\<rparr>" and sw = 1 and lw = 2 and mw = 1
       and rw = 1]
  by (simp add: momentum_strategy_def shift_def fsub_def fgt_def Let_def)

section \<open>Claims on the objective\<close>

text \<open>
  C2, as the code has it. The objective has no penalty. Take a non-empty price series
  whose prices are missing or finite with a magnitude of at most \<open>B\<close>, where \<open>B\<close> and
  the number of bars keep every product and sum of the evaluation within a quarter of the
  largest double, moving-average windows of at least 1 and a mean-reversion window that
  is not negative. At every bar where the momentum or the z-score is undefined, the
  signal of that strategy is 0. A momentum window of at least the number of bars makes
  the momentum undefined at every bar and ends the momentum strategy at the initial
  capital 10000; a mean-reversion window above the number of bars does the same to the
  mean-reversion strategy; each holds on its own, whatever the other windows are. The
  objective does not raise and returns minus the mean of the three final equities, a
  finite value in the range of a double: an evaluation with undefined indicators is
  valued as every other one.
\<close>

theorem undefined_indicators_no_penalty:
  assumes "Close d \<noteq> []" and "0 \<le> B" and "\<forall>x\<in>set (Close d). bounded_by B x"
    and "4 * (10000 + (2000 * real (length (Close d)) + 1000) * B) \<le> max_double"
    and "py_int sw = Inr a" and "py_int lw = Inr b" and "py_int mw = Inr c"
    and "py_int rw = Inr e"
    and "1 \<le> a" and "1 \<le> b" and "0 \<le> e"
  shows "\<exists>sma smr mo z u v w.
      moving_average_strategy d a b = Inr sma \<and>
      mean_reversion_strategy d e = Inr smr \<and>
      map_of (indicators (momentum_strategy d c)) ''momentum'' = Some mo \<and>
      map_of (indicators smr) ''z_score'' = Some z \<and>
      (\<forall>t<length (Close d). mo ! t = NaN \<longrightarrow> signal (momentum_strategy d c) ! t = Fin 0) \<and>
      (\<forall>t<length (Close d). z ! t = NaN \<longrightarrow> signal smr ! t = Fin 0) \<and>
      (int (length (Close d)) \<le> c \<longrightarrow> mo = replicate (length (Close d)) NaN \<and> v = 10000) \<and>
      (int (length (Close d)) < e \<longrightarrow> z = replicate (length (Close d)) NaN \<and> w = 10000) \<and>
      last (total (backtest_strategy d sma)) = Fin u \<and>
      last (total (backtest_strategy d (momentum_strategy d c))) = Fin v \<and>
      last (total (backtest_strategy d smr)) = Fin w \<and>
      objective d (sw, lw, mw, rw) = Inr (Fin (- ((u + v + w) / 3))) \<and>
      in_range (Fin (- ((u + v + w) / 3)))"
proof -
  let ?n = "length (Close d)"
  let ?mo = "map2 fsub (Close d) (shift c (Close d))"
  let ?z = "map2 fdiv (map2 fsub (Close d) (rolling_mean (nat e) (nat e) (Close d)))
    (rolling_std (nat e) (nat e) (Close d))"
  from ma_returns [OF assms(9,10)] obtain sma where ma: "moving_average_strategy d a b = Inr sma" ..
  from mr_returns [OF assms(11)] obtain smr where mr: "mean_reversion_strategy d e = Inr smr" ..
  have n: "?n \<noteq> 0"
    using assms(1) by simp
  have cmo: "map_of (indicators (momentum_strategy d c)) ''momentum'' = Some ?mo"
    by (rule momentum_column)
  have cz: "map_of (indicators smr) ''z_score'' = Some ?z"
    using mr by (rule mr_column)
  have umo: "\<forall>t<?n. ?mo ! t = NaN \<longrightarrow> signal (momentum_strategy d c) ! t = Fin 0"
    using momentum_undefined by blast
  have uz: "\<forall>t<?n. ?z ! t = NaN \<longrightarrow> signal smr ! t = Fin 0"
    using mr_undefined [OF mr] by blast
  from objective_in_range(4) [OF assms(1-8) ma mr] obtain u v w
    where u: "last (total (backtest_strategy d sma)) = Fin u"
      and v: "last (total (backtest_strategy d (momentum_strategy d c))) = Fin v"
      and w: "last (total (backtest_strategy d smr)) = Fin w"
      and obj: "objective d (sw, lw, mw, rw) = Inr (Fin (- ((u + v + w) / 3)))"
      and rng: "in_range (Fin (- ((u + v + w) / 3)))"
    by blast
  have omo: "int ?n \<le> c \<longrightarrow> ?mo = replicate ?n NaN \<and> v = 10000"
  proof
    assume big: "int ?n \<le> c"
    then have "signal (momentum_strategy d c) = replicate ?n (Fin 0)"
      by (rule momentum_oversized)
    then have "last (total (backtest_strategy d (momentum_strategy d c))) = Fin 10000"
      using n by (simp add: backtest_flat(3))
    with v have "v = 10000"
      by simp
    then show "?mo = replicate ?n NaN \<and> v = 10000"
      using momentum_column_oversized [OF big] by simp
  qed
  have oz: "int ?n < e \<longrightarrow> ?z = replicate ?n NaN \<and> w = 10000"
  proof
    assume big: "int ?n < e"
    with mr have "signal smr = replicate ?n (Fin 0)"
      by (rule mr_oversized)
    then have "last (total (backtest_strategy d smr)) = Fin 10000"
      using n by (simp add: backtest_flat(3))
    with w have "w = 10000"
      by simp
    then show "?z = replicate ?n NaN \<and> w = 10000"
      using mr_column_oversized [OF big] by simp
  qed
  from ma mr cmo cz umo uz omo oz u v w obj rng show ?thesis
    by blast
qed

theorem undefined_indicators_no_penalty_witness:
  "objective
      \<lparr>Close = [Fin 100, Fin 100, Fin 100, Fin 100, Fin 100, Fin 100, Fin 100, Fin 100, Fin 100,
                Fin 100, Fin 110, Fin 100, Fin 100, Fin 100, Fin 100]\<rparr>
      (Fin 30, Fin 90, Fin 10, Fin 30) = Inr (Fin (- 20000 / 3)) \<and>
   in_range (Fin (- 20000 / 3)) \<and>
   signal (momentum_strategy
      \<lparr>Close = [Fin 100, Fin 100, Fin 100, Fin 100, Fin 100, Fin 100, Fin 100, Fin 100, Fin 100,
                Fin 100, Fin 110, Fin 100, Fin 100, Fin 100, Fin 100]\<rparr> 10) ! 0 = Fin 0 \<and>
   (\<exists>smr. mean_reversion_strategy
      \<lparr>Close = [Fin 100, Fin 100, Fin 100, Fin 100, Fin 100, Fin 100, Fin 100, Fin 100, Fin 100,
                Fin 100, Fin 110, Fin 100, Fin 100, Fin 100, Fin 100]\<rparr> 30 = Inr smr \<and>
      signal smr ! 0 = Fin 0 \<and>
      last (total (backtest_strategy
        \<lparr>Close = [Fin 100, Fin 100, Fin 100, Fin 100, Fin 100, Fin 100, Fin 100, Fin 100, Fin 100,
                  Fin 100, Fin 110, Fin 100, Fin 100, Fin 100, Fin 100]\<rparr> smr)) = Fin 10000)"
proof -
  let ?d = "\<lparr>Close = [Fin 100, Fin 100, Fin 100, Fin 100, Fin 100, Fin 100, Fin 100, Fin 100,
    Fin 100, Fin 100, Fin 110, Fin 100, Fin 100, Fin 100, Fin 100]\<rparr>"
  have val: "objective ?d (Fin 30, Fin 90, Fin 10, Fin 30) = Inr (Fin (- 20000 / 3))"
    by (simp add: ev)
  have ne: "Close ?d \<noteq> []" and B: "(0::real) \<le> 110"
    and cl: "\<forall>x\<in>set (Close ?d). bounded_by 110 x"
    and room: "4 * (10000 + (2000 * real (length (Close ?d)) + 1000) * 110) \<le> max_double"
    by (simp_all add: max_double_def)
  have ints: "py_int (Fin 30) = Inr 30" "py_int (Fin 90) = Inr 90" "py_int (Fin 10) = Inr 10"
    by simp_all
  have win: "(1::int) \<le> 30" "(1::int) \<le> 90" "(0::int) \<le> 30"
    by simp_all
  from undefined_indicators_no_penalty
    [OF ne B cl room ints(1) ints(2) ints(3) ints(1) win]
  obtain sma smr mo z u v w
    where mr: "mean_reversion_strategy ?d 30 = Inr smr"
      and cmo: "map_of (indicators (momentum_strategy ?d 10)) ''momentum'' = Some mo"
      and umo: "\<forall>t<length (Close ?d). mo ! t = NaN \<longrightarrow> signal (momentum_strategy ?d 10) ! t = Fin 0"
      and uz: "\<forall>t<length (Close ?d). z ! t = NaN \<longrightarrow> signal smr ! t = Fin 0"
      and oz: "int (length (Close ?d)) < 30 \<longrightarrow> z = replicate (length (Close ?d)) NaN \<and> w = 10000"
      and w: "last (total (backtest_strategy ?d smr)) = Fin w"
      and obj: "objective ?d (Fin 30, Fin 90, Fin 10, Fin 30) = Inr (Fin (- ((u + v + w) / 3)))"
      and rng: "in_range (Fin (- ((u + v + w) / 3)))"
    by blast
  from trans [OF obj [symmetric] val] have "Fin (- ((u + v + w) / 3)) = Fin (- 20000 / 3)"
    by (simp only: sum.inject)
  with rng have r: "in_range (Fin (- 20000 / 3))"
    by (simp only:)
  from cmo have "mo ! 0 = NaN"
    by (auto simp: momentum_strategy_def shift_def fsub_def Let_def)
  with umo have s0: "signal (momentum_strategy ?d 10) ! 0 = Fin 0"
    by simp
  from oz have z: "z = replicate (length (Close ?d)) NaN" and w10: "w = 10000"
    by simp_all
  from z have "z ! 0 = NaN"
    by simp
  with uz have "signal smr ! 0 = Fin 0"
    by simp
  with mr w w10 have "\<exists>smr. mean_reversion_strategy ?d 30 = Inr smr \<and> signal smr ! 0 = Fin 0 \<and>
      last (total (backtest_strategy ?d smr)) = Fin 10000"
    by blast
  with val r s0 show ?thesis
    by (intro conjI)
qed

text \<open>
  C2 as stated fails. On fifteen bars the start point of the search (30, 90, 20, 30) has
  a momentum window beyond the series, so the momentum is NaN at every bar; its objective
  -10000 is below the objective -20000/3 of the point (30, 90, 10, 30), whose momentum
  window fits the series: a minimizer prefers the evaluation with the undefined
  indicator, which is the opposite of a penalty. With a moving-average window that
  truncates to 0, or a negative mean-reversion window, the objective returns no value
  but raises the ValueError of pandas' \<open>rolling\<close>; with an infinite price and a
  mean-reversion window beyond the series it returns NaN.
\<close>

theorem no_penalty_counterexample:
  "map_of (indicators (momentum_strategy
      \<lparr>Close = [Fin 100, Fin 100, Fin 100, Fin 100, Fin 100, Fin 100, Fin 100, Fin 100, Fin 100,
                Fin 100, Fin 110, Fin 100, Fin 100, Fin 100, Fin 100]\<rparr> 20)) ''momentum'' =
     Some [NaN, NaN, NaN, NaN, NaN, NaN, NaN, NaN, NaN, NaN, NaN, NaN, NaN, NaN, NaN] \<and>
   objective
      \<lparr>Close = [Fin 100, Fin 100, Fin 100, Fin 100, Fin 100, Fin 100, Fin 100, Fin 100, Fin 100,
                Fin 100, Fin 110, Fin 100, Fin 100, Fin 100, Fin 100]\<rparr>
      (Fin 30, Fin 90, Fin 20, Fin 30) = Inr (Fin (- 10000)) \<and>
   objective
      \<lparr>Close = [Fin 100, Fin 100, Fin 100, Fin 100, Fin 100, Fin 100, Fin 100, Fin 100, Fin 100,
                Fin 100, Fin 110, Fin 100, Fin 100, Fin 100, Fin 100]\<rparr>
      (Fin 30, Fin 90, Fin 10, Fin 30) = Inr (Fin (- 20000 / 3)) \<and>
   flt (Fin (- 10000)) (Fin (- 20000 / 3)) \<and>
   objective \<lparr>Close = [Fin 100, Fin 110, Fin 90]\<rparr> (Fin 0, Fin 90, Fin 20, Fin 30) =
     Inl ValueError \<and>
   objective \<lparr>Close = [Fin 100, Fin 110, Fin 90]\<rparr> (Fin 30, Fin 90, Fin 20, Fin (- 1)) =
     Inl ValueError \<and>
   objective \<lparr>Close = [Fin 1, PInf]\<rparr> (Fin 1, Fin 2, Fin 1, Fin 30) = Inr NaN"
  by (simp add: ev)

text \<open>
  C4, as the code has it. For every non-empty price series whose prices are missing or
  finite with a magnitude of at most \<open>B\<close>, where \<open>B\<close> and the number of bars keep every
  product and sum of the evaluation within a quarter of the largest double, and every
  parameter vector whose truncated moving-average windows are at least 1 and whose
  truncated mean-reversion window is not negative, the objective does not raise; every
  entry of the three portfolios and the value of the objective are finite and in the
  range of a double. No hypothesis bounds a window from above: this holds in particular
  when a window equals or exceeds the number of bars.
\<close>

theorem objective_finite_in_range:
  assumes "Close d \<noteq> []" and "0 \<le> B" and "\<forall>x\<in>set (Close d). bounded_by B x"
    and "4 * (10000 + (2000 * real (length (Close d)) + 1000) * B) \<le> max_double"
    and "py_int sw = Inr a" and "py_int lw = Inr b" and "py_int mw = Inr c"
    and "py_int rw = Inr e"
    and "1 \<le> a" and "1 \<le> b" and "0 \<le> e"
  shows "\<exists>sma smr v.
      moving_average_strategy d a b = Inr sma \<and>
      mean_reversion_strategy d e = Inr smr \<and>
      portfolio_in_range (backtest_strategy d sma) \<and>
      portfolio_in_range (backtest_strategy d (momentum_strategy d c)) \<and>
      portfolio_in_range (backtest_strategy d smr) \<and>
      objective d (sw, lw, mw, rw) = Inr v \<and> in_range v"
proof -
  from ma_returns [OF assms(9,10)] obtain sma where ma: "moving_average_strategy d a b = Inr sma" ..
  from mr_returns [OF assms(11)] obtain smr where mr: "mean_reversion_strategy d e = Inr smr" ..
  from objective_in_range(4) [OF assms(1-8) ma mr]
  have "\<exists>v. objective d (sw, lw, mw, rw) = Inr v \<and> in_range v"
    by blast
  with ma mr objective_in_range(1-3) [OF assms(1-8) ma mr] show ?thesis
    by blast
qed

theorem objective_finite_in_range_witness:
  "objective \<lparr>Close = [Fin 103, NaN, Fin 92]\<rparr> (Fin 3, Fin (7 / 2), Fin 4, Fin 90) =
     Inr (Fin (- 10000)) \<and>
   in_range (Fin (- 10000))"
proof -
  let ?d = "\<lparr>Close = [Fin 103, NaN, Fin 92]\<rparr>"
  have val: "objective ?d (Fin 3, Fin (7 / 2), Fin 4, Fin 90) = Inr (Fin (- 10000))"
    by (simp add: ev)
  have ne: "Close ?d \<noteq> []" and B: "(0::real) \<le> 103"
    and cl: "\<forall>x\<in>set (Close ?d). bounded_by 103 x"
    and room: "4 * (10000 + (2000 * real (length (Close ?d)) + 1000) * 103) \<le> max_double"
    by (simp_all add: max_double_def)
  have ints: "py_int (Fin 3) = Inr 3" "py_int (Fin (7 / 2)) = Inr 3" "py_int (Fin 4) = Inr 4"
    "py_int (Fin 90) = Inr 90"
    by simp_all
  have win: "(1::int) \<le> 3" "(1::int) \<le> 3" "(0::int) \<le> 90"
    by simp_all
  from objective_finite_in_range [OF ne B cl room ints win]
  obtain v where obj: "objective ?d (Fin 3, Fin (7 / 2), Fin 4, Fin 90) = Inr v"
    and rng: "in_range v"
    by blast
  from trans [OF obj [symmetric] val] have "v = Fin (- 10000)"
    by (simp only: sum.inject)
  with rng have "in_range (Fin (- 10000))"
    by (simp only:)
  with val show ?thesis
    by (rule conjI)
qed

text \<open>
  C4 as stated fails. On three bars the vector (0.5, 90, 20, 30) has three windows beyond
  the series, and its short window truncates to 0, which pandas' \<open>rolling\<close> refuses
  under \<open>min_periods=1\<close>: the objective raises a ValueError. So it does for the negative
  mean-reversion window of (1, 90, 20, -1). On the two bars 1 and infinity the vector
  (1, 2, 1, 4) has two windows that reach the series length; the momentum strategy buys
  at the infinite price, its equity is \<open>-inf + inf\<close>, and the objective returns NaN.
\<close>

theorem objective_finite_counterexample:
  "objective \<lparr>Close = [Fin 100, Fin 110, Fin 90]\<rparr> (Fin (1 / 2), Fin 90, Fin 20, Fin 30) =
     Inl ValueError \<and>
   objective \<lparr>Close = [Fin 100, Fin 110, Fin 90]\<rparr> (Fin 1, Fin 90, Fin 20, Fin (- 1)) =
     Inl ValueError \<and>
   objective \<lparr>Close = [Fin 1, PInf]\<rparr> (Fin 1, Fin 2, Fin 1, Fin 4) = Inr NaN"
  by (simp add: ev)

end
